theory Spec2Isabelle
  imports Complex_Main "HOL-Library.Word" "HOL-Library.Sublist"
begin

section \<open>JavaScript strings and the built-ins the route handler uses\<close>

text \<open>
  The chat endpoint lives in \<^verbatim>\<open>src/app/api/chat/route.ts\<close>. A JavaScript string is a
  sequence of UTF-16 code units, so it is modelled as a list of 16-bit words; \<open>str\<close>
  embeds an ASCII literal of the source. \<open>String.prototype.includes\<close>, \<open>trim\<close>,
  \<open>Array.prototype.join\<close> and \<open>map\<close> with an index are written out below.
  \<open>String.prototype.toLowerCase\<close> is the Unicode case mapping of the runtime; it is not
  part of the repository and is taken as a parameter wherever the code calls it.
\<close>

type_synonym jsstring = "16 word list"

definition str :: "string \<Rightarrow> jsstring" where
  "str s = map of_char s"

text \<open>\<open>s.includes(k)\<close>: \<open>k\<close> occurs in \<open>s\<close> as a contiguous run of code units.\<close>

fun includes_str :: "jsstring \<Rightarrow> jsstring \<Rightarrow> bool" where
  "includes_str [] k = (k = [])"
| "includes_str (c # cs) k = (prefix k (c # cs) \<or> includes_str cs k)"

text \<open>
  The code units \<open>trim\<close> strips: the WhiteSpace and LineTerminator productions of
  ECMAScript (tab, line feed, vertical tab, form feed, carriage return, space, no-break
  space, the Unicode space separators, line and paragraph separator, byte order mark).
\<close>

definition isWhiteSpace :: "16 word \<Rightarrow> bool" where
  "isWhiteSpace c \<longleftrightarrow>
     c \<in> {0x0009, 0x000A, 0x000B, 0x000C, 0x000D, 0x0020, 0x00A0, 0x1680,
          0x2000, 0x2001, 0x2002, 0x2003, 0x2004, 0x2005, 0x2006, 0x2007,
          0x2008, 0x2009, 0x200A, 0x2028, 0x2029, 0x202F, 0x205F, 0x3000, 0xFEFF}"

definition trim :: "jsstring \<Rightarrow> jsstring" where
  "trim s = rev (dropWhile isWhiteSpace (rev (dropWhile isWhiteSpace s)))"

text \<open>\<open>xs.join(sep)\<close> on an array of strings.\<close>

fun join :: "jsstring \<Rightarrow> jsstring list \<Rightarrow> jsstring" where
  "join sep [] = []"
| "join sep [x] = x"
| "join sep (x # y # ys) = x @ sep @ join sep (y # ys)"

text \<open>\<open>xs.map((x, index) => f(x, index))\<close>; the array method starts \<open>index\<close> at 0.\<close>

fun map_index :: "('a \<Rightarrow> nat \<Rightarrow> 'b) \<Rightarrow> nat \<Rightarrow> 'a list \<Rightarrow> 'b list" where
  "map_index f i [] = []"
| "map_index f i (x # xs) = f x i # map_index f (Suc i) xs"

text \<open>A non-negative integer inside a template literal: its decimal digits.\<close>

fun decimal :: "nat \<Rightarrow> jsstring" where
  "decimal n = (if n < 10 then [0x30 + of_nat n]
                else decimal (n div 10) @ [0x30 + of_nat (n mod 10)])"

text \<open>
  A value of type \<open>string | undefined\<close> inside a template literal or as an element of
  \<open>join\<close>. The template literal prints \<open>undefined\<close>; \<open>join\<close> prints nothing.
\<close>

fun template :: "jsstring option \<Rightarrow> jsstring" where
  "template None = str ''undefined''"
| "template (Some s) = s"

fun join_element :: "jsstring option \<Rightarrow> jsstring" where
  "join_element None = []"
| "join_element (Some s) = s"

text \<open>\<open>a || d\<close> where \<open>a\<close> is a string or undefined: the empty string is falsy.\<close>

fun or_else :: "jsstring option \<Rightarrow> jsstring \<Rightarrow> jsstring" where
  "or_else None d = d"
| "or_else (Some s) d = (if s = [] then d else s)"

section \<open>Data model\<close>

text \<open>
  \<open>interface RAGDocument\<close> and \<open>interface RAGResponse\<close>. The interface declares
  \<open>url: string\<close>, but the value stored there is read from an object with an index
  signature, which yields \<open>undefined\<close> for an absent key; the model keeps that case
  (\<open>None\<close>) so that "a URL is always produced" is a theorem and not an assumption.
  Scores are JSON numbers that are only copied.
\<close>

record RAGDocument =
  url :: "jsstring option"
  title :: jsstring
  content :: jsstring
  fetched_at :: jsstring
  score :: "rat option"

record RAGResponse =
  documents :: "RAGDocument list"
  has_results :: bool
  query_id :: "jsstring option"

text \<open>The parts of a \<open>UIMessage\<close> the handler reads.\<close>

record part =
  part_type :: jsstring
  part_text :: "jsstring option"

record message =
  role :: jsstring
  parts :: "part list option"

text \<open>
  An awaited call either throws (the promise rejects) or returns. \<open>req.json()\<close> throws on
  a body that is not JSON; otherwise the body is \<open>null\<close> or an object whose \<open>messages\<close>
  field is present or not.
\<close>

datatype 'a outcome = Throws | Returns 'a

datatype request_body = NullBody | ObjectBody "message list option"

type_synonym Request = "request_body outcome"

text \<open>The body \<open>{query, limit, score_threshold}\<close> posted to the search service.\<close>

record ragRequest =
  query :: jsstring
  limit :: nat
  score_threshold :: rat

text \<open>One entry of \<open>ragResults.results\<close>: the fields the transformation reads.\<close>

record metadata =
  metadata_text :: "jsstring option"

record raw_result =
  result_id :: jsstring
  result_score :: "rat option"
  result_text :: "jsstring option"
  result_metadata :: "metadata option"

datatype search_json = JsonNull | JsonObject "raw_result list option"

record fetch_response =
  ok :: bool
  json :: "search_json outcome"

text \<open>The argument of \<open>streamText\<close>; \<open>system\<close> is absent in the fallback call.\<close>

record 'mm streamParams =
  model :: jsstring
  system :: "jsstring option"
  messages :: 'mm

datatype 'mm event =
    EmbedCall jsstring jsstring
  | FetchCall jsstring ragRequest
  | ModelCall "'mm streamParams"

datatype 'st response =
    UIMessageStream 'st
  | PlainResponse nat jsstring

text \<open>
  Everything outside the repository that a request touches: the embedding client, the
  search service behind \<open>fetch\<close>, the clock read by \<open>new Date().toISOString()\<close> (its
  \<open>k\<close>-th reading during the request), the runtime's \<open>toLowerCase\<close>, and the
  completion client. \<open>streamText\<close> stands for \<open>streamText(...)\<close> followed by
  \<open>toUIMessageStreamResponse()\<close>.
\<close>

record ('mm, 'st) env =
  embed :: "jsstring \<Rightarrow> jsstring \<Rightarrow> rat list outcome"
  fetch :: "jsstring \<Rightarrow> ragRequest \<Rightarrow> fetch_response outcome"
  now_iso :: "nat \<Rightarrow> jsstring"
  toLowerCase :: "jsstring \<Rightarrow> jsstring"
  convertToModelMessages :: "message list \<Rightarrow> 'mm outcome"
  streamText :: "'mm streamParams \<Rightarrow> 'st outcome"

section \<open>The URL classifier\<close>

text \<open>The object literal \<open>urlMappings\<close>, in the order of the source.\<close>

definition urlMappings :: "(string \<times> jsstring) list" where
  "urlMappings =
    [(''estadio-azteca'', str ''https://fifa.com/en/tournaments/mens/worldcup/canadamexicousa2026/stadiums/mexico-city''),
     (''estadio-akron'', str ''https://fifa.com/en/tournaments/mens/worldcup/canadamexicousa2026/stadiums/guadalajara''),
     (''estadio-bbva'', str ''https://fifa.com/en/tournaments/mens/worldcup/canadamexicousa2026/stadiums/monterrey''),
     (''sofi-stadium'', str ''https://fifa.com/en/tournaments/mens/worldcup/canadamexicousa2026/stadiums/los-angeles''),
     (''lumen-field'', str ''https://fifa.com/en/tournaments/mens/worldcup/canadamexicousa2026/stadiums/seattle''),
     (''grupo-d'', str ''https://fifa.com/en/tournaments/mens/worldcup/canadamexicousa2026/groups''),
     (''phase-groups'', str ''https://fifa.com/en/tournaments/mens/worldcup/canadamexicousa2026/groups''),
     (''tickets'', str ''https://fifa.com/en/tournaments/mens/worldcup/canadamexicousa2026/tickets''),
     (''ticketing'', str ''https://fifa.com/en/tournaments/mens/worldcup/canadamexicousa2026/tickets''),
     (''world-cup-2026'', str ''https://fifa.com/en/tournaments/mens/worldcup/canadamexicousa2026''),
     (''canada-mexico-usa'', str ''https://fifa.com/en/tournaments/mens/worldcup/canadamexicousa2026'')]"

text \<open>\<open>urlMappings[key]\<close>: \<open>None\<close> is JavaScript's \<open>undefined\<close>.\<close>

definition lookup :: "string \<Rightarrow> jsstring option" where
  "lookup key = map_of urlMappings key"

text \<open>The keyword \<open>los angeles (with an acute accent on the a)\<close> of the source: its second word starts with U+00E1.\<close>

definition los_angeles_accented :: jsstring where
  "los_angeles_accented = str ''los '' @ [0x00E1] @ str ''ngeles''"

definition convertToRealFIFAUrl ::
  "(jsstring \<Rightarrow> jsstring) \<Rightarrow> jsstring \<Rightarrow> jsstring \<Rightarrow> jsstring option" where
  "convertToRealFIFAUrl lower docId content' =
    (let contentLower = lower content' in
     if includes_str contentLower (str ''estadio azteca'') \<or> includes_str contentLower (str ''87,523'')
        \<or> includes_str contentLower (str ''mexico city'')
     then lookup ''estadio-azteca''
     else if includes_str contentLower (str ''estadio akron'') \<or> includes_str contentLower (str ''49,813'')
        \<or> includes_str contentLower (str ''guadalajara'')
     then lookup ''estadio-akron''
     else if includes_str contentLower (str ''estadio bbva'') \<or> includes_str contentLower (str ''53,500'')
        \<or> includes_str contentLower (str ''monterrey'')
     then lookup ''estadio-bbva''
     else if includes_str contentLower (str ''sofi stadium'') \<or> includes_str contentLower los_angeles_accented
        \<or> includes_str contentLower (str ''los angeles'')
     then lookup ''sofi-stadium''
     else if includes_str contentLower (str ''lumen field'') \<or> includes_str contentLower (str ''seattle'')
     then lookup ''lumen-field''
     else if includes_str contentLower (str ''grupo d'') \<or> includes_str contentLower (str ''group d'')
     then lookup ''grupo-d''
     else if includes_str contentLower (str ''fase de grupos'') \<or> includes_str contentLower (str ''group stage'')
     then lookup ''phase-groups''
     else if includes_str contentLower (str ''ticket'') \<or> includes_str contentLower (str ''precio'')
        \<or> includes_str contentLower (str ''price'') \<or> includes_str contentLower (str ''usd'')
     then lookup ''tickets''
     else if includes_str contentLower (str ''stadium'') \<or> includes_str contentLower (str ''estadio'')
        \<or> includes_str contentLower (str ''capacity'') \<or> includes_str contentLower (str ''capacidad'')
     then Some (str ''https://fifa.com/en/tournaments/mens/worldcup/canadamexicousa2026/stadiums'')
     else lookup ''world-cup-2026'')"

section \<open>The retrieval orchestrator\<close>

text \<open>
  The callback of \<open>ragResults.results?.map((result, index) => ...)\<close> in
  \<open>queryRAGSystem\<close>. The content handed to the classifier is \<open>result.text || ''\<close>; the
  stored content is \<open>result.text || result.metadata?.text || 'No content available'\<close>;
  \<open>fetched_at\<close> is the clock reading taken while the entry is transformed.
\<close>

definition transformResult :: "('mm, 'st) env \<Rightarrow> raw_result \<Rightarrow> nat \<Rightarrow> RAGDocument" where
  "transformResult env result index =
    \<lparr>url = convertToRealFIFAUrl (toLowerCase env) (result_id result) (or_else (result_text result) []),
     title = str ''FIFA Document '' @ decimal (index + 1),
     content = or_else (result_text result)
                 (or_else (case result_metadata result of None \<Rightarrow> None | Some m \<Rightarrow> metadata_text m)
                    (str ''No content available'')),
     fetched_at = now_iso env index,
     score = result_score result\<rparr>"

text \<open>
  \<open>queryRAGSystem\<close>: one POST to the search service; every exception inside the
  \<open>try\<close> (a rejected \<open>fetch\<close>, a status that is not ok, a body that is not JSON, a
  \<open>null\<close> body whose fields are read) ends in \<open>return null\<close>. The first component of
  the result is the call made; the embedding is not sent.
\<close>

definition queryRAGSystem ::
  "('mm, 'st) env \<Rightarrow> rat list \<Rightarrow> jsstring \<Rightarrow> 'mm event list \<times> RAGResponse option" where
  "queryRAGSystem env embedding q =
    (let RAG_API_URL = str ''http://localhost:8000'';
         request = \<lparr>query = q, limit = 5, score_threshold = 3 / 10\<rparr>;
         call = FetchCall (RAG_API_URL @ str ''/search'') request
     in case fetch env (RAG_API_URL @ str ''/search'') request of
          Throws \<Rightarrow> ([call], None)
        | Returns response \<Rightarrow>
            if \<not> ok response then ([call], None)
            else (case json response of
                    Throws \<Rightarrow> ([call], None)
                  | Returns JsonNull \<Rightarrow> ([call], None)
                  | Returns (JsonObject results) \<Rightarrow>
                      let docs = (case results of
                                    None \<Rightarrow> []
                                  | Some rs \<Rightarrow> map_index (transformResult env) 0 rs);
                          ragResponse = \<lparr>documents = docs, has_results = (length docs > 0),
                                         query_id = None\<rparr>
                      in ([call], Some ragResponse)))"

section \<open>The prompt assembler\<close>

definition buildNoAnswerPrompt :: jsstring where
  \<open>buildNoAnswerPrompt =
    str (''You must respond with exactly this message:\<newline>'' @
         ''\<newline>'' @
         ''"I don\'t know based on current fifa.com content I have indexed."\<newline>'' @
         ''\<newline>'' @
         ''Then suggest the user visit fifa.com directly for the most current information about FIFA events and tickets.'')\<close>

definition buildContextFromSources :: "RAGDocument list \<Rightarrow> jsstring" where
  "buildContextFromSources docs =
    (let contextParts =
       map_index (\<lambda>doc index.
          str ''[Source '' @ decimal (index + 1) @ str ''] '' @ title doc @
          str ''\<newline>Content: '' @ content doc @
          str ''\<newline>URL: '' @ template (url doc) @
          str ''\<newline>Last indexed: '' @ fetched_at doc) 0 docs
     in join (str ''\<newline>\<newline>---\<newline>\<newline>'') contextParts)"

text \<open>
  The template literal that \<open>buildSystemPrompt\<close> returns when there are documents
  (lines 183 to 201), with \<open>${context}\<close> and \<open>${userQuery}\<close> as arguments.
\<close>

definition citationPrompt :: "jsstring \<Rightarrow> jsstring \<Rightarrow> jsstring" where
  \<open>citationPrompt context userQuery =
    str (''You are a FIFA.com assistant chatbot. Your role is to help visitors find accurate information about FIFA events, tickets, and official content.\<newline>'' @
         ''\<newline>'' @
         ''STRICT GUIDELINES:\<newline>'' @
         ''- Answer ONLY based on the retrieved FIFA.com content provided below\<newline>'' @
         ''- Always include citations and sources for your answers\<newline>'' @
         ''- If the context doesn\'t fully answer the question, acknowledge this and provide what information you can\<newline>'' @
         ''- Focus on ticket sales, World Cup information, FIFA events, and official policies\<newline>'' @
         ''- Maintain a helpful, professional tone\<newline>'' @
         ''- Provide specific details when available (dates, prices, procedures)\<newline>'' @
         ''- Never hallucinate or provide information not found in the retrieved context\<newline>'' @
         ''\<newline>'' @
         ''DOMAIN RESTRICTION:\<newline>'' @
         ''- Only reference content from fifa.com/en and its subpages\<newline>'' @
         ''- Do not provide information from other sources or your training data\<newline>'' @
         ''\<newline>'' @
         ''RETRIEVED CONTEXT FROM FIFA.COM:\<newline>'') @
    context @
    str (''\<newline>'' @
         ''\<newline>'' @
         ''Based on this FIFA.com content, please answer the user\'s question: "'') @
    userQuery @ str ''"''\<close>

definition buildSystemPrompt :: "RAGResponse option \<Rightarrow> jsstring \<Rightarrow> jsstring" where
  "buildSystemPrompt ragResponse userQuery =
    (case ragResponse of
       None \<Rightarrow> buildNoAnswerPrompt
     | Some r \<Rightarrow>
         if \<not> has_results r \<or> length (documents r) = 0 then buildNoAnswerPrompt
         else
           let context = buildContextFromSources (documents r) in
           citationPrompt context userQuery)"

section \<open>The chat endpoint\<close>

definition internalServerError :: "'st response" where
  "internalServerError = PlainResponse 500 (str ''Internal Server Error'')"

text \<open>
  Lines 13 to 22 of \<open>POST\<close>: the text parts of the last message joined by a space;
  the empty string when there is no last message or it has no \<open>parts\<close>.
\<close>

definition extractQuery :: "message list \<Rightarrow> jsstring" where
  "extractQuery msgs =
    (let lastUserMessage = (if msgs = [] then None else Some (last msgs)) in
     case lastUserMessage of
       None \<Rightarrow> []
     | Some m \<Rightarrow>
        (case parts m of
           None \<Rightarrow> []
         | Some ps \<Rightarrow>
            (let textParts = map part_text (filter (\<lambda>p. part_type p = str ''text'') ps)
             in join (str '' '') (map join_element textParts))))"

text \<open>
  Lines 67 to 73: the completion without retrieval. An exception here reaches the outer
  \<open>catch\<close>, which answers 500. The trace so far is passed in and extended.
\<close>

definition fallbackChat ::
  "('mm, 'st) env \<Rightarrow> 'mm event list \<Rightarrow> message list \<Rightarrow> 'mm event list \<times> 'st response" where
  "fallbackChat env trace msgs =
    (case convertToModelMessages env msgs of
       Throws \<Rightarrow> (trace, internalServerError)
     | Returns mm \<Rightarrow>
        (let params = \<lparr>model = str ''gpt-5'', system = None, messages = mm\<rparr> in
         case streamText env params of
           Throws \<Rightarrow> (trace @ [ModelCall params], internalServerError)
         | Returns s \<Rightarrow> (trace @ [ModelCall params], UIMessageStream s)))"

text \<open>
  \<open>POST\<close>. The result is the trace of external calls, in order, and the HTTP response.
  Reading \<open>messages.length\<close> of an absent \<open>messages\<close> and destructuring \<open>null\<close> throw
  into the outer \<open>catch\<close>; everything thrown between lines 28 and 60 is swallowed by the
  inner \<open>catch\<close>, after which the handler continues with the fallback.
\<close>

definition POST ::
  "('mm, 'st) env \<Rightarrow> Request \<Rightarrow> 'mm event list \<times> 'st response" where
  "POST env req =
    (case req of
       Throws \<Rightarrow> ([], internalServerError)
     | Returns NullBody \<Rightarrow> ([], internalServerError)
     | Returns (ObjectBody None) \<Rightarrow> ([], internalServerError)
     | Returns (ObjectBody (Some msgs)) \<Rightarrow>
        (let userQuery = extractQuery msgs in
         if trim userQuery \<noteq> [] then
           (let embedCall = EmbedCall (str ''openai/text-embedding-3-small'') userQuery in
            case embed env (str ''openai/text-embedding-3-small'') userQuery of
              Throws \<Rightarrow> fallbackChat env [embedCall] msgs
            | Returns queryEmbedding \<Rightarrow>
               (let (fetchCalls, ragResponse) = queryRAGSystem env queryEmbedding userQuery;
                    systemPrompt = buildSystemPrompt ragResponse userQuery
                in case convertToModelMessages env msgs of
                     Throws \<Rightarrow> fallbackChat env (embedCall # fetchCalls) msgs
                   | Returns mm \<Rightarrow>
                      (let params = \<lparr>model = str ''openai/gpt-4o-mini'',
                                      system = Some systemPrompt, messages = mm\<rparr> in
                       case streamText env params of
                         Throws \<Rightarrow> fallbackChat env (embedCall # fetchCalls @ [ModelCall params]) msgs
                       | Returns s \<Rightarrow> (embedCall # fetchCalls @ [ModelCall params], UIMessageStream s))))
         else fallbackChat env [] msgs))"

section \<open>Vocabulary of the specification\<close>

text \<open>
  The specification describes the classifier as an ordered table of rules, each a list of
  keywords and a URL, of which the first that matches decides; \<open>first_match\<close> follows
  those words, and \<open>classifier_rules\<close> is the table it names: venues first, then groups
  and stage, then tickets and prices, then the generic stadium rule.
\<close>

definition tournament_url :: jsstring where
  "tournament_url = str ''https://fifa.com/en/tournaments/mens/worldcup/canadamexicousa2026''"

definition stadiums_url :: jsstring where
  "stadiums_url = str ''https://fifa.com/en/tournaments/mens/worldcup/canadamexicousa2026/stadiums''"

definition venue_urls :: "jsstring list" where
  "venue_urls =
    [str ''https://fifa.com/en/tournaments/mens/worldcup/canadamexicousa2026/stadiums/mexico-city'',
     str ''https://fifa.com/en/tournaments/mens/worldcup/canadamexicousa2026/stadiums/guadalajara'',
     str ''https://fifa.com/en/tournaments/mens/worldcup/canadamexicousa2026/stadiums/monterrey'',
     str ''https://fifa.com/en/tournaments/mens/worldcup/canadamexicousa2026/stadiums/los-angeles'',
     str ''https://fifa.com/en/tournaments/mens/worldcup/canadamexicousa2026/stadiums/seattle'']"

definition classified_urls :: "jsstring list" where
  "classified_urls =
    venue_urls @ [str ''https://fifa.com/en/tournaments/mens/worldcup/canadamexicousa2026/groups'', str ''https://fifa.com/en/tournaments/mens/worldcup/canadamexicousa2026/tickets'', stadiums_url, tournament_url]"

definition venue_keywords :: "jsstring list" where
  "venue_keywords =
    [str ''estadio azteca'', str ''87,523'', str ''mexico city'',
     str ''estadio akron'', str ''49,813'', str ''guadalajara'',
     str ''estadio bbva'', str ''53,500'', str ''monterrey'',
     str ''sofi stadium'', los_angeles_accented, str ''los angeles'',
     str ''lumen field'', str ''seattle'']"

definition classifier_rules :: "(jsstring list \<times> jsstring) list" where
  "classifier_rules =
    [([str ''estadio azteca'', str ''87,523'', str ''mexico city''], str ''https://fifa.com/en/tournaments/mens/worldcup/canadamexicousa2026/stadiums/mexico-city''),
     ([str ''estadio akron'', str ''49,813'', str ''guadalajara''], str ''https://fifa.com/en/tournaments/mens/worldcup/canadamexicousa2026/stadiums/guadalajara''),
     ([str ''estadio bbva'', str ''53,500'', str ''monterrey''], str ''https://fifa.com/en/tournaments/mens/worldcup/canadamexicousa2026/stadiums/monterrey''),
     ([str ''sofi stadium'', los_angeles_accented, str ''los angeles''], str ''https://fifa.com/en/tournaments/mens/worldcup/canadamexicousa2026/stadiums/los-angeles''),
     ([str ''lumen field'', str ''seattle''], str ''https://fifa.com/en/tournaments/mens/worldcup/canadamexicousa2026/stadiums/seattle''),
     ([str ''grupo d'', str ''group d''], str ''https://fifa.com/en/tournaments/mens/worldcup/canadamexicousa2026/groups''),
     ([str ''fase de grupos'', str ''group stage''], str ''https://fifa.com/en/tournaments/mens/worldcup/canadamexicousa2026/groups''),
     ([str ''ticket'', str ''precio'', str ''price'', str ''usd''], str ''https://fifa.com/en/tournaments/mens/worldcup/canadamexicousa2026/tickets''),
     ([str ''stadium'', str ''estadio'', str ''capacity'', str ''capacidad''], stadiums_url)]"

fun first_match :: "(jsstring list \<times> jsstring) list \<Rightarrow> jsstring \<Rightarrow> jsstring \<Rightarrow> jsstring" where
  "first_match [] dflt s = dflt"
| "first_match ((keywords, u) # rules) dflt s =
     (if list_ex (includes_str s) keywords then u else first_match rules dflt s)"

text \<open>
  The failures of the search call that \<open>queryRAGSystem\<close> catches: a rejected \<open>fetch\<close>,
  a status that is not ok, a body that is not JSON, a \<open>null\<close> body.
\<close>

definition fetch_failed :: "fetch_response outcome \<Rightarrow> bool" where
  "fetch_failed r =
    (case r of
       Throws \<Rightarrow> True
     | Returns resp \<Rightarrow> \<not> ok resp \<or> json resp = Throws \<or> json resp = Returns JsonNull)"

section \<open>A concrete environment for worked examples\<close>

text \<open>
  \<open>asciiLower\<close> is \<open>toLowerCase\<close> on strings of ASCII code units. In \<open>example_env\<close> the
  completion client returns its own argument, so the response shows the call that
  produced it; the embedding client and the search service answer as given.
\<close>

definition asciiLower :: "jsstring \<Rightarrow> jsstring" where
  "asciiLower s = map (\<lambda>c. if 0x41 \<le> c \<and> c \<le> 0x5A then c + 0x20 else c) s"

definition example_env ::
  "rat list outcome \<Rightarrow> fetch_response outcome \<Rightarrow> (message list, message list streamParams) env" where
  "example_env e f =
    \<lparr>embed = (\<lambda>m v. e), fetch = (\<lambda>u b. f),
     now_iso = (\<lambda>k. str ''2026-06-11T18:00:00.00'' @ decimal k @ str ''Z''),
     toLowerCase = asciiLower,
     convertToModelMessages = Returns, streamText = Returns\<rparr>"

definition example_messages :: "jsstring \<Rightarrow> message list" where
  "example_messages q =
    [\<lparr>role = str ''user'', parts = Some [\<lparr>part_type = str ''text'', part_text = Some q\<rparr>]\<rparr>]"

definition example_results :: "raw_result list" where
  "example_results =
    [\<lparr>result_id = str ''doc-17'', result_score = Some (9 / 10),
      result_text = Some (str ''Estadio Azteca is the stadium of the opening match''),
      result_metadata = None\<rparr>,
     \<lparr>result_id = str ''doc-4'', result_score = None, result_text = Some [],
      result_metadata = Some \<lparr>metadata_text = Some (str ''Ticket prices in USD'')\<rparr>\<rparr>,
     \<lparr>result_id = str ''doc-9'', result_score = None, result_text = None,
      result_metadata = None\<rparr>]"

text \<open>What the orchestrator makes of \<open>example_results\<close> (see \<open>example_query\<close>).\<close>

definition example_documents :: "RAGDocument list" where
  "example_documents =
      [\<lparr>url = Some (str ''https://fifa.com/en/tournaments/mens/worldcup/canadamexicousa2026/stadiums/mexico-city''),
        title = str ''FIFA Document 1'',
        content = str ''Estadio Azteca is the stadium of the opening match'',
        fetched_at = str ''2026-06-11T18:00:00.000Z'', score = Some (9 / 10)\<rparr>,
       \<lparr>url = Some (str ''https://fifa.com/en/tournaments/mens/worldcup/canadamexicousa2026''),
        title = str ''FIFA Document 2'',
        content = str ''Ticket prices in USD'',
        fetched_at = str ''2026-06-11T18:00:00.001Z'', score = None\<rparr>,
       \<lparr>url = Some (str ''https://fifa.com/en/tournaments/mens/worldcup/canadamexicousa2026''),
        title = str ''FIFA Document 3'',
        content = str ''No content available'',
        fetched_at = str ''2026-06-11T18:00:00.002Z'', score = None\<rparr>]"

section \<open>Auxiliary facts\<close>

declare decimal.simps [simp del]

lemma lookup_simps:
  "lookup ''estadio-azteca'' = Some (str ''https://fifa.com/en/tournaments/mens/worldcup/canadamexicousa2026/stadiums/mexico-city'')"
  "lookup ''estadio-akron'' = Some (str ''https://fifa.com/en/tournaments/mens/worldcup/canadamexicousa2026/stadiums/guadalajara'')"
  "lookup ''estadio-bbva'' = Some (str ''https://fifa.com/en/tournaments/mens/worldcup/canadamexicousa2026/stadiums/monterrey'')"
  "lookup ''sofi-stadium'' = Some (str ''https://fifa.com/en/tournaments/mens/worldcup/canadamexicousa2026/stadiums/los-angeles'')"
  "lookup ''lumen-field'' = Some (str ''https://fifa.com/en/tournaments/mens/worldcup/canadamexicousa2026/stadiums/seattle'')"
  "lookup ''grupo-d'' = Some (str ''https://fifa.com/en/tournaments/mens/worldcup/canadamexicousa2026/groups'')"
  "lookup ''phase-groups'' = Some (str ''https://fifa.com/en/tournaments/mens/worldcup/canadamexicousa2026/groups'')"
  "lookup ''tickets'' = Some (str ''https://fifa.com/en/tournaments/mens/worldcup/canadamexicousa2026/tickets'')"
  "lookup ''world-cup-2026'' = Some (str ''https://fifa.com/en/tournaments/mens/worldcup/canadamexicousa2026'')"
  by (simp_all add: lookup_def urlMappings_def)

lemma classifier_first_match:
  "convertToRealFIFAUrl lower docId c = Some (first_match classifier_rules tournament_url (lower c))"
  by (simp add: convertToRealFIFAUrl_def Let_def lookup_simps classifier_rules_def
      tournament_url_def stadiums_url_def)

lemma classified_urls_prefix:
  "u \<in> set classified_urls \<Longrightarrow> prefix tournament_url u"
  unfolding classified_urls_def venue_urls_def stadiums_url_def tournament_url_def
  by (auto simp: str_def)

lemma first_match_range:
  "first_match rules dflt s \<in> insert dflt (snd ` set rules)"
  by (induction rules dflt s rule: first_match.induct) auto

lemma classifier_range:
  "\<exists>u. convertToRealFIFAUrl lower docId c = Some u \<and> u \<in> set classified_urls"
proof -
  have "snd ` set classifier_rules \<subseteq> set classified_urls"
    by (simp add: classifier_rules_def classified_urls_def venue_urls_def)
  moreover have "tournament_url \<in> set classified_urls"
    by (simp add: classified_urls_def)
  ultimately have "first_match classifier_rules tournament_url (lower c) \<in> set classified_urls"
    using first_match_range [of classifier_rules tournament_url "lower c"] by auto
  then show ?thesis by (simp add: classifier_first_match)
qed

lemma stadiums_url_not_venue: "stadiums_url \<notin> set venue_urls"
  by (simp add: venue_urls_def stadiums_url_def str_def)

lemma first_match_front:
  "\<exists>r \<in> set front. list_ex (includes_str s) (fst r) \<Longrightarrow>
   first_match (front @ back) dflt s \<in> snd ` set front"
proof (induction front)
  case Nil
  then show ?case by simp
next
  case (Cons r front)
  obtain ks u where r: "r = (ks, u)" by (cases r)
  show ?case
  proof (cases "list_ex (includes_str s) ks")
    case True
    then show ?thesis by (simp add: r)
  next
    case False
    with Cons.prems have "\<exists>r \<in> set front. list_ex (includes_str s) (fst r)"
      by (simp add: r)
    then have "first_match (front @ back) dflt s \<in> snd ` set front"
      by (rule Cons.IH)
    with False show ?thesis by (simp add: r)
  qed
qed

lemma venue_rules_front:
  "classifier_rules = take 5 classifier_rules @ drop 5 classifier_rules"
  "snd ` set (take 5 classifier_rules) = set venue_urls"
  by (simp_all add: classifier_rules_def venue_urls_def)

lemma venue_keywords_front:
  "(\<exists>k \<in> set venue_keywords. P k) \<Longrightarrow> \<exists>r \<in> set (take 5 classifier_rules). list_ex P (fst r)"
  by (simp add: classifier_rules_def venue_keywords_def)

lemma venue_priority:
  assumes "\<exists>k \<in> set venue_keywords. includes_str (lower c) k"
  shows "\<exists>u \<in> set venue_urls. convertToRealFIFAUrl lower docId c = Some u"
proof -
  have "first_match (take 5 classifier_rules @ drop 5 classifier_rules) tournament_url (lower c)
          \<in> snd ` set (take 5 classifier_rules)"
    by (rule first_match_front) (rule venue_keywords_front [OF assms])
  then have "first_match classifier_rules tournament_url (lower c) \<in> set venue_urls"
    using venue_rules_front by simp
  then show ?thesis by (simp add: classifier_first_match)
qed

lemma map_index_length [simp]: "length (map_index f i xs) = length xs"
  by (induction xs arbitrary: i) auto

lemma map_index_nth: "k < length xs \<Longrightarrow> map_index f i xs ! k = f (xs ! k) (i + k)"
proof (induction xs arbitrary: i k)
  case Nil
  then show ?case by simp
next
  case (Cons x xs)
  then show ?case by (cases k) auto
qed

lemma map_index_map: "map_index f i xs = map (\<lambda>k. f (xs ! k) (i + k)) [0..<length xs]"
  by (rule nth_equalityI) (simp_all add: map_index_nth)

lemma map_index_Nil_iff [simp]: "map_index f i xs = [] \<longleftrightarrow> xs = []"
  by (cases xs) auto

lemma trim_empty_iff: "trim s = [] \<longleftrightarrow> (\<forall>c \<in> set s. isWhiteSpace c)"
proof -
  have "trim s = [] \<longleftrightarrow> dropWhile isWhiteSpace (rev (dropWhile isWhiteSpace s)) = []"
    by (simp add: trim_def)
  also have "\<dots> \<longleftrightarrow> (\<forall>c \<in> set (dropWhile isWhiteSpace s). isWhiteSpace c)"
    by (simp add: dropWhile_eq_Nil_conv)
  also have "\<dots> \<longleftrightarrow> (\<forall>c \<in> set s. isWhiteSpace c)"
  proof
    assume a: "\<forall>c \<in> set (dropWhile isWhiteSpace s). isWhiteSpace c"
    have "dropWhile isWhiteSpace s = []"
    proof (rule ccontr)
      assume "dropWhile isWhiteSpace s \<noteq> []"
      then have "\<not> isWhiteSpace (hd (dropWhile isWhiteSpace s))" by (rule hd_dropWhile)
      moreover have "hd (dropWhile isWhiteSpace s) \<in> set (dropWhile isWhiteSpace s)"
        using \<open>dropWhile isWhiteSpace s \<noteq> []\<close> by simp
      ultimately show False using a by blast
    qed
    then show "\<forall>c \<in> set s. isWhiteSpace c" by (simp add: dropWhile_eq_Nil_conv)
  next
    assume "\<forall>c \<in> set s. isWhiteSpace c"
    then show "\<forall>c \<in> set (dropWhile isWhiteSpace s). isWhiteSpace c"
      using set_dropWhileD by fastforce
  qed
  finally show ?thesis .
qed

lemma queryRAGSystem_fst:
  "fst (queryRAGSystem env e q) =
     [FetchCall (str ''http://localhost:8000'' @ str ''/search'')
        \<lparr>query = q, limit = 5, score_threshold = 3 / 10\<rparr>]"
  by (simp add: queryRAGSystem_def Let_def split: outcome.splits search_json.splits)

lemma queryRAGSystem_Some:
  assumes "snd (queryRAGSystem env e q) = Some r"
  shows "\<exists>resp results.
           fetch env (str ''http://localhost:8000'' @ str ''/search'')
             \<lparr>query = q, limit = 5, score_threshold = 3 / 10\<rparr> = Returns resp \<and>
           ok resp \<and> json resp = Returns (JsonObject results) \<and>
           documents r = (case results of None \<Rightarrow> [] | Some rs \<Rightarrow> map_index (transformResult env) 0 rs) \<and>
           has_results r = (length (documents r) > 0)"
  using assms
  by (auto simp: queryRAGSystem_def Let_def split: outcome.splits search_json.splits if_splits)

lemma queryRAGSystem_failed:
  assumes "fetch_failed (fetch env (str ''http://localhost:8000'' @ str ''/search'')
             \<lparr>query = q, limit = 5, score_threshold = 3 / 10\<rparr>)"
  shows "snd (queryRAGSystem env e q) = None"
  using assms
  by (auto simp: queryRAGSystem_def fetch_failed_def Let_def split: outcome.splits search_json.splits if_splits)

lemma buildSystemPrompt_None: "buildSystemPrompt None q = buildNoAnswerPrompt"
  by (simp add: buildSystemPrompt_def)

lemma citationPrompt_neq: "citationPrompt c q \<noteq> buildNoAnswerPrompt"
proof
  assume "citationPrompt c q = buildNoAnswerPrompt"
  then have "take 5 (citationPrompt c q) = take 5 buildNoAnswerPrompt" by simp
  moreover have "take 5 (citationPrompt c q) = str ''You a''"
    by (simp add: citationPrompt_def str_def)
  moreover have "take 5 buildNoAnswerPrompt = str ''You m''"
    by (simp add: buildNoAnswerPrompt_def str_def)
  ultimately show False by (simp add: str_def)
qed

lemma example_query:
  "snd (queryRAGSystem
          (example_env e (Returns \<lparr>ok = True, json = Returns (JsonObject (Some example_results))\<rparr>))
          emb q) =
   Some \<lparr>documents = example_documents, has_results = True, query_id = None\<rparr>"
  by (simp add: queryRAGSystem_def example_env_def example_results_def example_documents_def
      transformResult_def convertToRealFIFAUrl_def los_angeles_accented_def asciiLower_def
      lookup_simps Let_def decimal.simps str_def)

lemma includes_str_sublist: "includes_str s k \<longleftrightarrow> sublist k s"
  by (induction s) (auto simp: sublist_Cons_right)

lemma first_match_default:
  "\<forall>r \<in> set rules. \<not> list_ex (includes_str s) (fst r) \<Longrightarrow> first_match rules dflt s = dflt"
  by (induction rules) auto

lemma first_match_nth:
  "i < length rules \<Longrightarrow> list_ex (includes_str s) (fst (rules ! i)) \<Longrightarrow>
   \<forall>j < i. \<not> list_ex (includes_str s) (fst (rules ! j)) \<Longrightarrow>
   first_match rules dflt s = snd (rules ! i)"
proof (induction rules arbitrary: i)
  case Nil
  then show ?case by simp
next
  case (Cons r rules)
  obtain ks u where r: "r = (ks, u)" by (cases r)
  show ?case
  proof (cases i)
    case 0
    with Cons.prems show ?thesis by (simp add: r)
  next
    case (Suc i')
    from Cons.prems(3) Suc have "\<not> list_ex (includes_str s) ks"
      by (auto simp: r)
    moreover have "first_match rules dflt s = snd (rules ! i')"
    proof (rule Cons.IH)
      show "i' < length rules" using Cons.prems(1) Suc by simp
      show "list_ex (includes_str s) (fst (rules ! i'))" using Cons.prems(2) Suc by simp
      show "\<forall>j < i'. \<not> list_ex (includes_str s) (fst (rules ! j))"
      proof (intro allI impI)
        fix j assume "j < i'"
        then have "Suc j < i" using Suc by simp
        with Cons.prems(3) have "\<not> list_ex (includes_str s) (fst ((r # rules) ! Suc j))" by blast
        then show "\<not> list_ex (includes_str s) (fst (rules ! j))" by simp
      qed
    qed
    ultimately show ?thesis using Suc by (simp add: r)
  qed
qed

lemma or_else_nonempty: "d \<noteq> [] \<Longrightarrow> or_else x d \<noteq> []"
  by (cases x) auto

lemma sublist_trans: "sublist x y \<Longrightarrow> sublist y z \<Longrightarrow> sublist x z"
  unfolding sublist_def by (metis append.assoc)

lemma sublist_mid: "sublist x (a @ x @ b)"
  by (rule sublist_appendI)

lemma sublist_block:
  "sublist t (p1 @ p2 @ p3 @ t @ p4 @ c @ p5 @ u @ p6 @ f)"
  "sublist c (p1 @ p2 @ p3 @ t @ p4 @ c @ p5 @ u @ p6 @ f)"
  "sublist u (p1 @ p2 @ p3 @ t @ p4 @ c @ p5 @ u @ p6 @ f)"
  "sublist f (p1 @ p2 @ p3 @ t @ p4 @ c @ p5 @ u @ p6 @ f)"
proof -
  have "sublist t ((p1 @ p2 @ p3) @ t @ (p4 @ c @ p5 @ u @ p6 @ f))" by (rule sublist_appendI)
  then show "sublist t (p1 @ p2 @ p3 @ t @ p4 @ c @ p5 @ u @ p6 @ f)" by simp
  have "sublist c ((p1 @ p2 @ p3 @ t @ p4) @ c @ (p5 @ u @ p6 @ f))" by (rule sublist_appendI)
  then show "sublist c (p1 @ p2 @ p3 @ t @ p4 @ c @ p5 @ u @ p6 @ f)" by simp
  have "sublist u ((p1 @ p2 @ p3 @ t @ p4 @ c @ p5) @ u @ (p6 @ f))" by (rule sublist_appendI)
  then show "sublist u (p1 @ p2 @ p3 @ t @ p4 @ c @ p5 @ u @ p6 @ f)" by simp
  have "sublist f ((p1 @ p2 @ p3 @ t @ p4 @ c @ p5 @ u @ p6) @ f)" by (rule sublist_append_leftI)
  then show "sublist f (p1 @ p2 @ p3 @ t @ p4 @ c @ p5 @ u @ p6 @ f)" by simp
qed

lemma join_sublist: "x \<in> set xs \<Longrightarrow> sublist x (join sep xs)"
proof (induction sep xs rule: join.induct)
  case (1 sep)
  then show ?case by simp
next
  case (2 sep y)
  then show ?case by simp
next
  case (3 sep y z zs)
  show ?case
  proof (cases "x = y")
    case True
    then show ?thesis by simp
  next
    case False
    with "3.prems" have "x \<in> set (z # zs)" by simp
    then have "sublist x (join sep (z # zs))" by (rule "3.IH")
    moreover have "sublist (join sep (z # zs)) ((y @ sep) @ join sep (z # zs))"
      by (rule sublist_append_leftI)
    ultimately have "sublist x ((y @ sep) @ join sep (z # zs))"
      by (rule sublist_trans)
    then show ?thesis by simp
  qed
qed

lemma citationPrompt_shape:
  \<open>\<exists>head mid. \<forall>c u. citationPrompt c u = head @ c @ mid @ u @ str ''"''\<close>
  unfolding citationPrompt_def by blast

lemma buildContextFromSources_blocks:
  "buildContextFromSources docs =
     join (str ''\<newline>\<newline>---\<newline>\<newline>'')
       (map (\<lambda>k. str ''[Source '' @ decimal (k + 1) @ str ''] '' @ title (docs ! k) @
                  str ''\<newline>Content: '' @ content (docs ! k) @
                  str ''\<newline>URL: '' @ template (url (docs ! k)) @
                  str ''\<newline>Last indexed: '' @ fetched_at (docs ! k))
            [0..<length docs])"
  by (simp add: buildContextFromSources_def map_index_map)

lemma sublist_in_citationPrompt: "sublist x c \<Longrightarrow> sublist x (citationPrompt c u)"
proof -
  assume a: "sublist x c"
  obtain head mid where "citationPrompt c u = head @ c @ (mid @ u @ str ''\"'')"
    using citationPrompt_shape by auto
  moreover have "sublist c (head @ c @ (mid @ u @ str ''\"''))" by (rule sublist_appendI)
  ultimately have "sublist c (citationPrompt c u)" by simp
  with a show ?thesis by (rule sublist_trans)
qed

lemma fallbackChat_ok:
  "convertToModelMessages env msgs = Returns mm \<Longrightarrow>
   streamText env \<lparr>model = str ''gpt-5'', system = None, messages = mm\<rparr> = Returns s \<Longrightarrow>
   fallbackChat env tr msgs =
     (tr @ [ModelCall \<lparr>model = str ''gpt-5'', system = None, messages = mm\<rparr>], UIMessageStream s)"
  by (simp add: fallbackChat_def)

lemma fallbackChat_events:
  "ev \<in> set (fst (fallbackChat env tr msgs)) \<Longrightarrow>
   ev \<in> set tr \<or> (\<exists>p. ev = ModelCall p \<and> model p = str ''gpt-5'' \<and> system p = None)"
  by (auto simp: fallbackChat_def Let_def split: outcome.splits)

lemma fallbackChat_500:
  "snd (fallbackChat env tr msgs) = PlainResponse n b \<Longrightarrow>
   convertToModelMessages env msgs = Throws \<or> (\<exists>p. streamText env p = Throws)"
  by (auto simp: fallbackChat_def Let_def split: outcome.splits)

lemma fallbackChat_fetch [simp]:
  "fallbackChat (env\<lparr>fetch := f\<rparr>) tr msgs = fallbackChat env tr msgs"
  by (simp add: fallbackChat_def Let_def split: outcome.splits)

lemma POST_empty_query:
  "trim (extractQuery msgs) = [] \<Longrightarrow>
   POST env (Returns (ObjectBody (Some msgs))) = fallbackChat env [] msgs"
  by (simp add: POST_def Let_def)

lemma POST_embed_throws:
  "trim (extractQuery msgs) \<noteq> [] \<Longrightarrow>
   embed env (str ''openai/text-embedding-3-small'') (extractQuery msgs) = Throws \<Longrightarrow>
   POST env (Returns (ObjectBody (Some msgs))) =
     fallbackChat env [EmbedCall (str ''openai/text-embedding-3-small'') (extractQuery msgs)] msgs"
  by (simp add: POST_def Let_def)

lemma POST_retrieval:
  "trim (extractQuery msgs) \<noteq> [] \<Longrightarrow>
   embed env (str ''openai/text-embedding-3-small'') (extractQuery msgs) = Returns e \<Longrightarrow>
   POST env (Returns (ObjectBody (Some msgs))) =
     (let embedCall = EmbedCall (str ''openai/text-embedding-3-small'') (extractQuery msgs);
          fetchCalls = fst (queryRAGSystem env e (extractQuery msgs));
          systemPrompt = buildSystemPrompt (snd (queryRAGSystem env e (extractQuery msgs))) (extractQuery msgs)
      in case convertToModelMessages env msgs of
           Throws \<Rightarrow> fallbackChat env (embedCall # fetchCalls) msgs
         | Returns mm \<Rightarrow>
            (case streamText env \<lparr>model = str ''openai/gpt-4o-mini'', system = Some systemPrompt, messages = mm\<rparr> of
               Throws \<Rightarrow> fallbackChat env (embedCall # fetchCalls @
                  [ModelCall \<lparr>model = str ''openai/gpt-4o-mini'', system = Some systemPrompt, messages = mm\<rparr>]) msgs
             | Returns s \<Rightarrow> (embedCall # fetchCalls @
                  [ModelCall \<lparr>model = str ''openai/gpt-4o-mini'', system = Some systemPrompt, messages = mm\<rparr>],
                  UIMessageStream s)))"
  by (simp add: POST_def Let_def case_prod_unfold split: outcome.splits)

lemma POST_retrieval_500:
  assumes "trim (extractQuery msgs) \<noteq> []"
    and "embed env (str ''openai/text-embedding-3-small'') (extractQuery msgs) = Returns e"
    and "snd (POST env (Returns (ObjectBody (Some msgs)))) = PlainResponse n b"
  shows "convertToModelMessages env msgs = Throws \<or> (\<exists>p. streamText env p = Throws)"
proof (cases "convertToModelMessages env msgs")
  case Throws
  then show ?thesis by simp
next
  case (Returns mm)
  let ?p = "\<lparr>model = str ''openai/gpt-4o-mini'',
             system = Some (buildSystemPrompt (snd (queryRAGSystem env e (extractQuery msgs))) (extractQuery msgs)),
             messages = mm\<rparr>"
  show ?thesis
  proof (cases "streamText env ?p")
    case Throws
    then show ?thesis by blast
  next
    case (Returns s)
    with \<open>convertToModelMessages env msgs = Returns mm\<close> assms show ?thesis
      by (simp add: POST_retrieval Let_def)
  qed
qed

lemma extractQuery_no_text:
  assumes "msgs = [] \<or> parts (last msgs) = None \<or>
           (\<exists>ps. parts (last msgs) = Some ps \<and> (\<forall>p \<in> set ps. part_type p \<noteq> str ''text''))"
  shows "extractQuery msgs = []"
proof -
  have "filter (\<lambda>p. part_type p = str ''text'') ps = []"
    if "\<forall>p \<in> set ps. part_type p \<noteq> str ''text''" for ps :: "part list"
    using that by (simp add: filter_empty_conv)
  with assms show ?thesis
    by (auto simp: extractQuery_def Let_def split: option.splits)
qed

lemma trim_Nil [simp]: "trim [] = []"
  by (simp add: trim_def)

lemma extractQuery_example [simp]: "extractQuery (example_messages q) = q"
  by (simp add: extractQuery_def example_messages_def)

lemma trim_example: "trim (str ''Who plays today?'') \<noteq> []"
  by (simp add: trim_empty_iff str_def isWhiteSpace_def)

lemma example_env_simps [simp]:
  "embed (example_env e f) m v = e"
  "fetch (example_env e f) u b = f"
  "convertToModelMessages (example_env e f) msgs = Returns msgs"
  "streamText (example_env e f) p = Returns p"
  "toLowerCase (example_env e f) = asciiLower"
  by (simp_all add: example_env_def)

lemma first_match_front_rule:
  "\<exists>r \<in> set front. list_ex (includes_str s) (fst r) \<Longrightarrow>
   \<exists>r \<in> set front. list_ex (includes_str s) (fst r) \<and> first_match (front @ back) dflt s = snd r"
proof (induction front)
  case Nil
  then show ?case by simp
next
  case (Cons r front)
  obtain ks u where r: "r = (ks, u)" by (cases r)
  show ?case
  proof (cases "list_ex (includes_str s) ks")
    case True
    then show ?thesis by (simp add: r)
  next
    case False
    with Cons.prems have "\<exists>r \<in> set front. list_ex (includes_str s) (fst r)"
      by (simp add: r)
    then have "\<exists>r \<in> set front. list_ex (includes_str s) (fst r) \<and>
                 first_match (front @ back) dflt s = snd r"
      by (rule Cons.IH)
    with False show ?thesis by (simp add: r)
  qed
qed

lemma venue_rule_decides:
  assumes "\<exists>k \<in> set venue_keywords. includes_str (lower c) k"
  shows "\<exists>r \<in> set (take 5 classifier_rules).
           list_ex (includes_str (lower c)) (fst r) \<and>
           convertToRealFIFAUrl lower docId c = Some (snd r)"
proof -
  have "\<exists>r \<in> set (take 5 classifier_rules). list_ex (includes_str (lower c)) (fst r) \<and>
          first_match (take 5 classifier_rules @ drop 5 classifier_rules) tournament_url (lower c) = snd r"
    by (rule first_match_front_rule) (rule venue_keywords_front [OF assms])
  then show ?thesis
    by (simp add: classifier_first_match)
qed

section \<open>Claims about the prompt assembler\<close>

text \<open>
  Claim C1. Whenever the retrieval result is \<open>null\<close>, or its \<open>has_results\<close> flag is
  false, or its document list is empty, \<open>buildSystemPrompt\<close> returns
  \<open>buildNoAnswerPrompt\<close> whatever the query is. That prompt is one constant: the line
  "You must respond with exactly this message:", an empty line, the quoted sentence
  "I don't know based on current fifa.com content I have indexed.", an empty line, and the
  instruction to suggest visiting fifa.com directly. Neither the query nor any document
  occurs in it.
\<close>

theorem no_answer_prompt_fixed:
  assumes "ragResponse = None \<or> (\<exists>r. ragResponse = Some r \<and> (\<not> has_results r \<or> documents r = []))"
  shows \<open>buildSystemPrompt ragResponse userQuery = buildNoAnswerPrompt \<and>
         buildNoAnswerPrompt =
           str ''You must respond with exactly this message:'' @ [0x0A, 0x0A] @
           [0x22] @ str ''I don\'t know based on current fifa.com content I have indexed.'' @ [0x22] @
           [0x0A, 0x0A] @
           str ''Then suggest the user visit fifa.com directly for the most current information about FIFA events and tickets.''\<close>
proof
  show "buildSystemPrompt ragResponse userQuery = buildNoAnswerPrompt"
    using assms by (auto simp: buildSystemPrompt_def)
  show \<open>buildNoAnswerPrompt =
           str ''You must respond with exactly this message:'' @ [0x0A, 0x0A] @
           [0x22] @ str ''I don\'t know based on current fifa.com content I have indexed.'' @ [0x22] @
           [0x0A, 0x0A] @
           str ''Then suggest the user visit fifa.com directly for the most current information about FIFA events and tickets.''\<close>
    by (simp add: buildNoAnswerPrompt_def str_def)
qed

theorem no_answer_prompt_fixed_witness:
  "buildSystemPrompt None (str ''Who won in 1986?'') = buildNoAnswerPrompt \<and>
   buildSystemPrompt (Some \<lparr>documents = [], has_results = False, query_id = None\<rparr>) (str ''Tickets?'')
     = buildNoAnswerPrompt \<and>
   buildSystemPrompt
     (Some \<lparr>documents = [\<lparr>url = None, title = str ''T'', content = str ''secret'', fetched_at = str ''now'',
                            score = None\<rparr>],
            has_results = False, query_id = None\<rparr>) [] = buildNoAnswerPrompt"
proof -
  have a: "buildSystemPrompt None (str ''Who won in 1986?'') = buildNoAnswerPrompt"
    using no_answer_prompt_fixed [of None "str ''Who won in 1986?''"] by simp
  have b: "buildSystemPrompt (Some \<lparr>documents = [], has_results = False, query_id = None\<rparr>) (str ''Tickets?'')
     = buildNoAnswerPrompt"
    using no_answer_prompt_fixed [of "Some \<lparr>documents = [], has_results = False, query_id = None\<rparr>" "str ''Tickets?''"]
    by simp
  have c: "buildSystemPrompt
     (Some \<lparr>documents = [\<lparr>url = None, title = str ''T'', content = str ''secret'', fetched_at = str ''now'',
                            score = None\<rparr>],
            has_results = False, query_id = None\<rparr>) [] = buildNoAnswerPrompt"
    using no_answer_prompt_fixed [of "Some \<lparr>documents = [\<lparr>url = None, title = str ''T'', content = str ''secret'', fetched_at = str ''now'',
                            score = None\<rparr>],
            has_results = False, query_id = None\<rparr>" "[]"]
    by simp
  from a b c show ?thesis by simp
qed

text \<open>
  Claim C4. For a result whose flag is set and whose document list is not empty,
  \<open>buildSystemPrompt\<close> is the fixed template around the context and the query: a fixed
  head, the context, a fixed middle part, the query as given, and the closing double
  quote of the template. The context is the join, with the separator
  \<open>\n\n---\n\n\<close>, of one block per document in the order supplied; block \<open>k\<close>
  (counting from 0) is \<open>[Source k+1]\<close>, the title, \<open>Content:\<close> and the content,
  \<open>URL:\<close> and the URL, \<open>Last indexed:\<close> and \<open>fetched_at\<close>, each value unchanged.
  Hence each of the four values of every document occurs in the prompt. The prompt is a
  function of the result and the query alone (no clock, no environment), so equal inputs
  give equal output.
\<close>

theorem citation_prompt_structure:
  assumes "has_results r" and "documents r \<noteq> []"
  shows \<open>buildSystemPrompt (Some r) userQuery
           = citationPrompt (buildContextFromSources (documents r)) userQuery \<and>
         (\<exists>head mid. \<forall>c u. citationPrompt c u = head @ c @ mid @ u @ str ''"'') \<and>
         buildContextFromSources (documents r) =
           join (str ''\<newline>\<newline>---\<newline>\<newline>'')
             (map (\<lambda>k. str ''[Source '' @ decimal (k + 1) @ str ''] '' @ title (documents r ! k) @
                        str ''\<newline>Content: '' @ content (documents r ! k) @
                        str ''\<newline>URL: '' @ template (url (documents r ! k)) @
                        str ''\<newline>Last indexed: '' @ fetched_at (documents r ! k))
                  [0..<length (documents r)]) \<and>
         (\<forall>k < length (documents r).
            sublist (title (documents r ! k)) (buildSystemPrompt (Some r) userQuery) \<and>
            sublist (content (documents r ! k)) (buildSystemPrompt (Some r) userQuery) \<and>
            sublist (template (url (documents r ! k))) (buildSystemPrompt (Some r) userQuery) \<and>
            sublist (fetched_at (documents r ! k)) (buildSystemPrompt (Some r) userQuery))\<close>
proof (intro conjI allI impI)
  show eq: "buildSystemPrompt (Some r) userQuery
           = citationPrompt (buildContextFromSources (documents r)) userQuery"
    using assms by (simp add: buildSystemPrompt_def)
  show \<open>\<exists>head mid. \<forall>c u. citationPrompt c u = head @ c @ mid @ u @ str ''"''\<close>
    by (rule citationPrompt_shape)
  show "buildContextFromSources (documents r) =
           join (str ''\<newline>\<newline>---\<newline>\<newline>'')
             (map (\<lambda>k. str ''[Source '' @ decimal (k + 1) @ str ''] '' @ title (documents r ! k) @
                        str ''\<newline>Content: '' @ content (documents r ! k) @
                        str ''\<newline>URL: '' @ template (url (documents r ! k)) @
                        str ''\<newline>Last indexed: '' @ fetched_at (documents r ! k))
                  [0..<length (documents r)])"
    by (rule buildContextFromSources_blocks)
  fix k assume k: "k < length (documents r)"
  let ?d = "documents r ! k"
  let ?block = "str ''[Source '' @ decimal (k + 1) @ str ''] '' @ title ?d @
                  str ''\<newline>Content: '' @ content ?d @
                  str ''\<newline>URL: '' @ template (url ?d) @
                  str ''\<newline>Last indexed: '' @ fetched_at ?d"
  have "?block \<in> set (map (\<lambda>k. str ''[Source '' @ decimal (k + 1) @ str ''] '' @ title (documents r ! k) @
                        str ''\<newline>Content: '' @ content (documents r ! k) @
                        str ''\<newline>URL: '' @ template (url (documents r ! k)) @
                        str ''\<newline>Last indexed: '' @ fetched_at (documents r ! k))
                  [0..<length (documents r)])"
    using k by auto
  then have "sublist ?block (buildContextFromSources (documents r))"
    unfolding buildContextFromSources_blocks by (rule join_sublist)
  then have blk: "sublist ?block (buildSystemPrompt (Some r) userQuery)"
    unfolding eq by (rule sublist_in_citationPrompt)
  have "sublist (title ?d) ?block"
    by (rule sublist_block(1))
  then show "sublist (title ?d) (buildSystemPrompt (Some r) userQuery)"
    using blk by (rule sublist_trans)
  have "sublist (content ?d) ?block"
    by (rule sublist_block(2))
  then show "sublist (content ?d) (buildSystemPrompt (Some r) userQuery)"
    using blk by (rule sublist_trans)
  have "sublist (template (url ?d)) ?block"
    by (rule sublist_block(3))
  then show "sublist (template (url ?d)) (buildSystemPrompt (Some r) userQuery)"
    using blk by (rule sublist_trans)
  have "sublist (fetched_at ?d) ?block"
    by (rule sublist_block(4))
  then show "sublist (fetched_at ?d) (buildSystemPrompt (Some r) userQuery)"
    using blk by (rule sublist_trans)
qed

theorem citation_prompt_structure_witness:
  "buildContextFromSources
     [\<lparr>url = Some (str ''https://fifa.com/a''), title = str ''FIFA Document 1'', content = str ''Kick-off 18:00'',
       fetched_at = str ''2026-06-11'', score = None\<rparr>,
      \<lparr>url = Some (str ''https://fifa.com/b''), title = str ''FIFA Document 2'', content = str ''Gates open 16:00'',
       fetched_at = str ''2026-06-12'', score = None\<rparr>] =
   str (''[Source 1] FIFA Document 1\<newline>Content: Kick-off 18:00\<newline>URL: https://fifa.com/a\<newline>Last indexed: 2026-06-11'' @
        ''\<newline>\<newline>---\<newline>\<newline>'' @
        ''[Source 2] FIFA Document 2\<newline>Content: Gates open 16:00\<newline>URL: https://fifa.com/b\<newline>Last indexed: 2026-06-12'') \<and>
   sublist (str ''Gates open 16:00'')
     (buildSystemPrompt
        (Some \<lparr>documents =
            [\<lparr>url = Some (str ''https://fifa.com/a''), title = str ''FIFA Document 1'', content = str ''Kick-off 18:00'',
              fetched_at = str ''2026-06-11'', score = None\<rparr>,
             \<lparr>url = Some (str ''https://fifa.com/b''), title = str ''FIFA Document 2'', content = str ''Gates open 16:00'',
              fetched_at = str ''2026-06-12'', score = None\<rparr>],
           has_results = True, query_id = None\<rparr>)
        (str ''When?''))"
proof -
  let ?d1 = "\<lparr>url = Some (str ''https://fifa.com/a''), title = str ''FIFA Document 1'', content = str ''Kick-off 18:00'',
       fetched_at = str ''2026-06-11'', score = None\<rparr>"
  let ?d2 = "\<lparr>url = Some (str ''https://fifa.com/b''), title = str ''FIFA Document 2'', content = str ''Gates open 16:00'',
       fetched_at = str ''2026-06-12'', score = None\<rparr>"
  let ?r = "\<lparr>documents = [?d1, ?d2], has_results = True, query_id = None\<rparr>"
  have h: "has_results ?r" "documents ?r \<noteq> []" by simp_all
  note th = citation_prompt_structure [OF h, of "str ''When?''"]
  have up: "[0..<length (documents ?r)] = [0, 1]"
    by (simp add: upt_rec)
  from th have "buildContextFromSources (documents ?r) =
           join (str ''\<newline>\<newline>---\<newline>\<newline>'')
             (map (\<lambda>k. str ''[Source '' @ decimal (k + 1) @ str ''] '' @ title (documents ?r ! k) @
                        str ''\<newline>Content: '' @ content (documents ?r ! k) @
                        str ''\<newline>URL: '' @ template (url (documents ?r ! k)) @
                        str ''\<newline>Last indexed: '' @ fetched_at (documents ?r ! k))
                  [0..<length (documents ?r)])"
    by blast
  then have a: "buildContextFromSources [?d1, ?d2] =
   str (''[Source 1] FIFA Document 1\<newline>Content: Kick-off 18:00\<newline>URL: https://fifa.com/a\<newline>Last indexed: 2026-06-11'' @
        ''\<newline>\<newline>---\<newline>\<newline>'' @
        ''[Source 2] FIFA Document 2\<newline>Content: Gates open 16:00\<newline>URL: https://fifa.com/b\<newline>Last indexed: 2026-06-12'')"
    unfolding up by (simp add: decimal.simps str_def)
  from th have "\<forall>k < length (documents ?r).
            sublist (title (documents ?r ! k)) (buildSystemPrompt (Some ?r) (str ''When?'')) \<and>
            sublist (content (documents ?r ! k)) (buildSystemPrompt (Some ?r) (str ''When?'')) \<and>
            sublist (template (url (documents ?r ! k))) (buildSystemPrompt (Some ?r) (str ''When?'')) \<and>
            sublist (fetched_at (documents ?r ! k)) (buildSystemPrompt (Some ?r) (str ''When?''))"
    by blast
  then have "1 < length (documents ?r) \<longrightarrow>
       sublist (content (documents ?r ! 1)) (buildSystemPrompt (Some ?r) (str ''When?''))"
    by blast
  then have b: "sublist (str ''Gates open 16:00'') (buildSystemPrompt (Some ?r) (str ''When?''))"
    by simp
  from a b show ?thesis by blast
qed

text \<open>
  Claim C7. In every result that \<open>queryRAGSystem\<close> constructs, \<open>has_results\<close> holds
  exactly when the document list is not empty. \<open>buildSystemPrompt\<close> yields the
  no-answer prompt exactly when the result is \<open>null\<close>, the flag is false or the list is
  empty, and the citation template otherwise; the two templates never coincide. For a
  constructed result the flag alone decides.
\<close>

theorem has_results_sole_branch:
  "(snd (queryRAGSystem env e q) = Some r \<longrightarrow> has_results r = (documents r \<noteq> [])) \<and>
   (buildSystemPrompt rr userQuery = buildNoAnswerPrompt \<longleftrightarrow>
      rr = None \<or> (\<exists>x. rr = Some x \<and> (\<not> has_results x \<or> documents x = []))) \<and>
   (\<forall>x. rr = Some x \<and> has_results x \<and> documents x \<noteq> [] \<longrightarrow>
      buildSystemPrompt rr userQuery = citationPrompt (buildContextFromSources (documents x)) userQuery) \<and>
   (snd (queryRAGSystem env e q) = Some r \<longrightarrow>
      buildSystemPrompt (Some r) userQuery =
        (if has_results r then citationPrompt (buildContextFromSources (documents r)) userQuery
         else buildNoAnswerPrompt))"
proof (intro conjI allI impI)
  assume "snd (queryRAGSystem env e q) = Some r"
  then show "has_results r = (documents r \<noteq> [])"
    using queryRAGSystem_Some by fastforce
next
  show "buildSystemPrompt rr userQuery = buildNoAnswerPrompt \<longleftrightarrow>
      rr = None \<or> (\<exists>x. rr = Some x \<and> (\<not> has_results x \<or> documents x = []))"
    by (cases rr) (auto simp: buildSystemPrompt_def citationPrompt_neq)
next
  fix x assume "rr = Some x \<and> has_results x \<and> documents x \<noteq> []"
  then show "buildSystemPrompt rr userQuery = citationPrompt (buildContextFromSources (documents x)) userQuery"
    by (simp add: buildSystemPrompt_def)
next
  assume "snd (queryRAGSystem env e q) = Some r"
  then have "has_results r = (documents r \<noteq> [])"
    using queryRAGSystem_Some by fastforce
  then show "buildSystemPrompt (Some r) userQuery =
        (if has_results r then citationPrompt (buildContextFromSources (documents r)) userQuery
         else buildNoAnswerPrompt)"
    by (simp add: buildSystemPrompt_def)
qed

theorem has_results_sole_branch_witness:
  "has_results \<lparr>documents = example_documents, has_results = True, query_id = None\<rparr>
     = (documents \<lparr>documents = example_documents, has_results = True, query_id = None\<rparr> \<noteq> []) \<and>
   buildSystemPrompt (Some \<lparr>documents = example_documents, has_results = True, query_id = None\<rparr>)
       (str ''Azteca?'')
     = citationPrompt (buildContextFromSources example_documents) (str ''Azteca?'') \<and>
   buildSystemPrompt (Some \<lparr>documents = example_documents, has_results = False, query_id = None\<rparr>)
       (str ''Azteca?'') = buildNoAnswerPrompt \<and>
   buildSystemPrompt (Some \<lparr>documents = example_documents, has_results = True, query_id = None\<rparr>)
       (str ''Azteca?'') \<noteq> buildNoAnswerPrompt"
proof -
  let ?r = "\<lparr>documents = example_documents, has_results = True, query_id = None\<rparr>"
  let ?r' = "\<lparr>documents = example_documents, has_results = False, query_id = None\<rparr>"
  let ?env = "example_env (Returns []) (Returns \<lparr>ok = True, json = Returns (JsonObject (Some example_results))\<rparr>)
                :: (message list, message list streamParams) env"
  have q: "snd (queryRAGSystem ?env [] (str ''Azteca?'')) = Some ?r"
    by (rule example_query)
  have ne: "example_documents \<noteq> []" by (simp add: example_documents_def)
  note th = has_results_sole_branch [of ?env "[]" "str ''Azteca?''" ?r "Some ?r" "str ''Azteca?''"]
  note th' = has_results_sole_branch [of ?env "[]" "str ''Azteca?''" ?r "Some ?r'" "str ''Azteca?''"]
  from th q have a: "has_results ?r = (documents ?r \<noteq> [])" by blast
  from th q have "buildSystemPrompt (Some ?r) (str ''Azteca?'') =
        (if has_results ?r then citationPrompt (buildContextFromSources (documents ?r)) (str ''Azteca?'')
         else buildNoAnswerPrompt)" by blast
  then have b: "buildSystemPrompt (Some ?r) (str ''Azteca?'')
     = citationPrompt (buildContextFromSources example_documents) (str ''Azteca?'')"
    by simp
  from th' have "(buildSystemPrompt (Some ?r') (str ''Azteca?'') = buildNoAnswerPrompt) =
      (Some ?r' = None \<or> (\<exists>x. Some ?r' = Some x \<and> (\<not> has_results x \<or> documents x = [])))"
    by blast
  then have c: "buildSystemPrompt (Some ?r') (str ''Azteca?'') = buildNoAnswerPrompt"
    by simp
  from th have "(buildSystemPrompt (Some ?r) (str ''Azteca?'') = buildNoAnswerPrompt) =
      (Some ?r = None \<or> (\<exists>x. Some ?r = Some x \<and> (\<not> has_results x \<or> documents x = [])))"
    by blast
  then have d: "buildSystemPrompt (Some ?r) (str ''Azteca?'') \<noteq> buildNoAnswerPrompt"
    using ne by simp
  from a b c d show ?thesis by blast
qed

section \<open>Claims about the URL classifier\<close>

text \<open>
  Claim C5. The classifier is first-match over the ordered table \<open>classifier_rules\<close>
  (venue names, capacities and cities; then group and stage; then tickets and prices; then
  the generic stadium rule), applied to the lower-cased content: the first rule of the
  table that has a keyword occurring in the content decides the URL, and when none has,
  the result is the tournament page. In particular, content holding a venue keyword and
  the word \<open>stadium\<close> is mapped to the URL of one of the five venue rules whose keyword
  it holds, and never to the generic stadiums URL.
\<close>

theorem classifier_priority:
  "(\<forall>i < length classifier_rules.
      list_ex (includes_str (lower c)) (fst (classifier_rules ! i)) \<and>
      (\<forall>j < i. \<not> list_ex (includes_str (lower c)) (fst (classifier_rules ! j))) \<longrightarrow>
      convertToRealFIFAUrl lower docId c = Some (snd (classifier_rules ! i))) \<and>
   ((\<forall>r \<in> set classifier_rules. \<not> list_ex (includes_str (lower c)) (fst r)) \<longrightarrow>
      convertToRealFIFAUrl lower docId c = Some tournament_url) \<and>
   ((\<exists>k \<in> set venue_keywords. includes_str (lower c) k) \<and> includes_str (lower c) (str ''stadium'') \<longrightarrow>
      (\<exists>r \<in> set (take 5 classifier_rules).
          list_ex (includes_str (lower c)) (fst r) \<and>
          convertToRealFIFAUrl lower docId c = Some (snd r)) \<and>
      (\<exists>u \<in> set venue_urls. convertToRealFIFAUrl lower docId c = Some u) \<and>
      convertToRealFIFAUrl lower docId c \<noteq> Some stadiums_url)"
proof (intro conjI allI impI)
  fix i
  assume "i < length classifier_rules"
    and "list_ex (includes_str (lower c)) (fst (classifier_rules ! i)) \<and>
      (\<forall>j < i. \<not> list_ex (includes_str (lower c)) (fst (classifier_rules ! j)))"
  then have "first_match classifier_rules tournament_url (lower c) = snd (classifier_rules ! i)"
    by (intro first_match_nth) blast+
  then show "convertToRealFIFAUrl lower docId c = Some (snd (classifier_rules ! i))"
    by (simp add: classifier_first_match)
next
  assume "\<forall>r \<in> set classifier_rules. \<not> list_ex (includes_str (lower c)) (fst r)"
  then have "first_match classifier_rules tournament_url (lower c) = tournament_url"
    by (rule first_match_default)
  then show "convertToRealFIFAUrl lower docId c = Some tournament_url"
    by (simp add: classifier_first_match)
next
  assume a: "(\<exists>k \<in> set venue_keywords. includes_str (lower c) k) \<and> includes_str (lower c) (str ''stadium'')"
  then show "\<exists>r \<in> set (take 5 classifier_rules).
          list_ex (includes_str (lower c)) (fst r) \<and>
          convertToRealFIFAUrl lower docId c = Some (snd r)"
    using venue_rule_decides by blast
next
  assume a: "(\<exists>k \<in> set venue_keywords. includes_str (lower c) k) \<and> includes_str (lower c) (str ''stadium'')"
  then show "\<exists>u \<in> set venue_urls. convertToRealFIFAUrl lower docId c = Some u"
    using venue_priority by blast
next
  assume a: "(\<exists>k \<in> set venue_keywords. includes_str (lower c) k) \<and> includes_str (lower c) (str ''stadium'')"
  then have "\<exists>u \<in> set venue_urls. convertToRealFIFAUrl lower docId c = Some u"
    using venue_priority by blast
  then show "convertToRealFIFAUrl lower docId c \<noteq> Some stadiums_url"
    using stadiums_url_not_venue by auto
qed

theorem classifier_priority_witness:
  "convertToRealFIFAUrl asciiLower (str ''doc-2'') (str ''Tickets for SoFi Stadium'')
     = Some (str ''https://fifa.com/en/tournaments/mens/worldcup/canadamexicousa2026/stadiums/los-angeles'') \<and>
   convertToRealFIFAUrl asciiLower (str ''doc-2'') (str ''Tickets for SoFi Stadium'') \<noteq> Some stadiums_url \<and>
   convertToRealFIFAUrl asciiLower (str ''doc-3'') (str ''Kick-off at noon'') = Some tournament_url"
proof -
  let ?c = "str ''Tickets for SoFi Stadium''"
  note t = classifier_priority [of asciiLower ?c "str ''doc-2''"]
  have lc: "asciiLower ?c = str ''tickets for sofi stadium''"
    by (simp add: asciiLower_def str_def)
  have m3: "list_ex (includes_str (asciiLower ?c)) (fst (classifier_rules ! 3))"
    unfolding lc by (simp add: classifier_rules_def str_def)
  have n3: "\<forall>j < 3. \<not> list_ex (includes_str (asciiLower ?c)) (fst (classifier_rules ! j))"
  proof (intro allI impI)
    fix j :: nat assume "j < 3"
    then have "j = 0 \<or> j = 1 \<or> j = 2" by arith
    then show "\<not> list_ex (includes_str (asciiLower ?c)) (fst (classifier_rules ! j))"
      unfolding lc by (auto simp: classifier_rules_def str_def)
  qed
  have "(3::nat) < length classifier_rules" by (simp add: classifier_rules_def)
  with t m3 n3 have "convertToRealFIFAUrl asciiLower (str ''doc-2'') ?c = Some (snd (classifier_rules ! 3))"
    by blast
  then have a: "convertToRealFIFAUrl asciiLower (str ''doc-2'') ?c
     = Some (str ''https://fifa.com/en/tournaments/mens/worldcup/canadamexicousa2026/stadiums/los-angeles'')"
    by (simp add: classifier_rules_def)
  have v: "\<exists>k \<in> set venue_keywords. includes_str (asciiLower ?c) k"
    unfolding lc by (simp add: venue_keywords_def str_def)
  have s: "includes_str (asciiLower ?c) (str ''stadium'')"
    unfolding lc by (simp add: str_def)
  from t v s have b: "convertToRealFIFAUrl asciiLower (str ''doc-2'') ?c \<noteq> Some stadiums_url"
    by blast
  have "\<forall>r \<in> set classifier_rules. \<not> list_ex (includes_str (asciiLower (str ''Kick-off at noon''))) (fst r)"
    by (simp add: classifier_rules_def asciiLower_def los_angeles_accented_def str_def)
  with classifier_priority [of asciiLower "str ''Kick-off at noon''" "str ''doc-3''"]
  have c: "convertToRealFIFAUrl asciiLower (str ''doc-3'') (str ''Kick-off at noon'') = Some tournament_url"
    by blast
  from a b c show ?thesis by blast
qed

text \<open>
  Claim C9. For every case mapping, document identifier and content string the classifier
  returns a URL (never \<open>undefined\<close>), that URL is one of the nine of \<open>classified_urls\<close>,
  each of which begins with
  \<open>https://fifa.com/en/tournaments/mens/worldcup/canadamexicousa2026\<close>; hence the URL of
  every document in a result of \<open>queryRAGSystem\<close> begins with that address.
\<close>

theorem classifier_total_range:
  "(\<exists>u. convertToRealFIFAUrl lower docId c = Some u \<and> u \<in> set classified_urls) \<and>
   (\<forall>u \<in> set classified_urls.
      prefix (str ''https://fifa.com/en/tournaments/mens/worldcup/canadamexicousa2026'') u) \<and>
   (\<forall>r d. snd (queryRAGSystem env e q) = Some r \<and> d \<in> set (documents r) \<longrightarrow>
      (\<exists>u. url d = Some u \<and>
           prefix (str ''https://fifa.com/en/tournaments/mens/worldcup/canadamexicousa2026'') u))"
proof (intro conjI allI impI ballI)
  show "\<exists>u. convertToRealFIFAUrl lower docId c = Some u \<and> u \<in> set classified_urls"
    by (rule classifier_range)
next
  fix u assume "u \<in> set classified_urls"
  then show "prefix (str ''https://fifa.com/en/tournaments/mens/worldcup/canadamexicousa2026'') u"
    using classified_urls_prefix by (simp add: tournament_url_def)
next
  fix r d assume a: "snd (queryRAGSystem env e q) = Some r \<and> d \<in> set (documents r)"
  then obtain resp results where
    docs: "documents r = (case results of None \<Rightarrow> [] | Some rs \<Rightarrow> map_index (transformResult env) 0 rs)"
    using queryRAGSystem_Some by blast
  from a docs obtain rs where rs: "results = Some rs" and d: "d \<in> set (map_index (transformResult env) 0 rs)"
    by (cases results) auto
  from d obtain k where "k < length rs" and "d = transformResult env (rs ! k) k"
    by (auto simp: map_index_map)
  then have "url d = convertToRealFIFAUrl (toLowerCase env) (result_id (rs ! k)) (or_else (result_text (rs ! k)) [])"
    by (simp add: transformResult_def)
  then obtain u where "url d = Some u" and "u \<in> set classified_urls"
    using classifier_range by metis
  then show "\<exists>u. url d = Some u \<and>
           prefix (str ''https://fifa.com/en/tournaments/mens/worldcup/canadamexicousa2026'') u"
    using classified_urls_prefix by (auto simp: tournament_url_def)
qed

theorem classifier_total_range_witness:
  "convertToRealFIFAUrl asciiLower (str ''doc-4'') (str ''Ticket prices in USD'')
     = Some (str ''https://fifa.com/en/tournaments/mens/worldcup/canadamexicousa2026/tickets'') \<and>
   prefix (str ''https://fifa.com/en/tournaments/mens/worldcup/canadamexicousa2026'')
     (str ''https://fifa.com/en/tournaments/mens/worldcup/canadamexicousa2026/tickets'') \<and>
   (\<exists>u. url (example_documents ! 0) = Some u \<and>
      prefix (str ''https://fifa.com/en/tournaments/mens/worldcup/canadamexicousa2026'') u)"
proof -
  let ?env = "example_env (Returns []) (Returns \<lparr>ok = True, json = Returns (JsonObject (Some example_results))\<rparr>)
                :: (message list, message list streamParams) env"
  note t = classifier_total_range [of asciiLower "str ''doc-4''" "str ''Ticket prices in USD''" ?env "[]" "str ''Azteca?''"]
  have c: "convertToRealFIFAUrl asciiLower (str ''doc-4'') (str ''Ticket prices in USD'')
     = Some (str ''https://fifa.com/en/tournaments/mens/worldcup/canadamexicousa2026/tickets'')"
    by (simp add: convertToRealFIFAUrl_def los_angeles_accented_def asciiLower_def lookup_simps Let_def str_def)
  with t have m: "str ''https://fifa.com/en/tournaments/mens/worldcup/canadamexicousa2026/tickets'' \<in> set classified_urls"
    by auto
  with t have p: "prefix (str ''https://fifa.com/en/tournaments/mens/worldcup/canadamexicousa2026'')
     (str ''https://fifa.com/en/tournaments/mens/worldcup/canadamexicousa2026/tickets'')"
    by blast
  have mem: "example_documents ! 0 \<in> set (documents \<lparr>documents = example_documents, has_results = True, query_id = None\<rparr>)"
    by (simp add: example_documents_def)
  from t have "\<And>r. snd (queryRAGSystem ?env [] (str ''Azteca?'')) = Some r \<Longrightarrow>
      example_documents ! 0 \<in> set (documents r) \<Longrightarrow>
      (\<exists>u. url (example_documents ! 0) = Some u \<and>
           prefix (str ''https://fifa.com/en/tournaments/mens/worldcup/canadamexicousa2026'') u)"
    by blast
  from this [OF example_query mem] have d: "\<exists>u. url (example_documents ! 0) = Some u \<and>
      prefix (str ''https://fifa.com/en/tournaments/mens/worldcup/canadamexicousa2026'') u" .
  from c p d show ?thesis by blast
qed

section \<open>Claims about the retrieval orchestrator\<close>

text \<open>
  Claim C10. Every document of a result of \<open>queryRAGSystem\<close> comes from the entry at the
  same position of the search service's result list. Its title is \<open>FIFA Document\<close>
  followed by the 1-based position; its \<open>fetched_at\<close> is the handler's own clock reading
  taken for that entry, not a field of the entry; its content is the entry's text, or else
  the text of its metadata, or else \<open>No content available\<close>, and so is never empty.
\<close>

theorem orchestrator_document_fields:
  assumes "snd (queryRAGSystem env e q) = Some r" and "i < length (documents r)"
  shows "\<exists>resp rs.
           fetch env (str ''http://localhost:8000'' @ str ''/search'')
             \<lparr>query = q, limit = 5, score_threshold = 3 / 10\<rparr> = Returns resp \<and>
           json resp = Returns (JsonObject (Some rs)) \<and>
           length rs = length (documents r) \<and>
           title (documents r ! i) = str ''FIFA Document '' @ decimal (i + 1) \<and>
           fetched_at (documents r ! i) = now_iso env i \<and>
           content (documents r ! i) \<noteq> [] \<and>
           content (documents r ! i) =
             or_else (result_text (rs ! i))
               (or_else (case result_metadata (rs ! i) of None \<Rightarrow> None | Some m \<Rightarrow> metadata_text m)
                  (str ''No content available''))"
proof -
  from assms(1) obtain resp results where
    f: "fetch env (str ''http://localhost:8000'' @ str ''/search'')
             \<lparr>query = q, limit = 5, score_threshold = 3 / 10\<rparr> = Returns resp"
    and j: "json resp = Returns (JsonObject results)"
    and d: "documents r = (case results of None \<Rightarrow> [] | Some rs \<Rightarrow> map_index (transformResult env) 0 rs)"
    using queryRAGSystem_Some by blast
  from d assms(2) obtain rs where rs: "results = Some rs"
    by (cases results) auto
  with d have docs: "documents r = map_index (transformResult env) 0 rs" by simp
  have len: "length rs = length (documents r)" unfolding docs by simp
  have i: "i < length rs" using assms(2) unfolding docs by simp
  have nth: "documents r ! i = transformResult env (rs ! i) i"
    unfolding docs using map_index_nth [OF i, of "transformResult env" 0] by simp
  have nca: "str ''No content available'' \<noteq> []" by (simp add: str_def)
  have j': "json resp = Returns (JsonObject (Some rs))" using j rs by simp
  have t: "title (documents r ! i) = str ''FIFA Document '' @ decimal (i + 1)"
    unfolding nth by (simp add: transformResult_def)
  have fa: "fetched_at (documents r ! i) = now_iso env i"
    unfolding nth by (simp add: transformResult_def)
  have c: "content (documents r ! i) =
             or_else (result_text (rs ! i))
               (or_else (case result_metadata (rs ! i) of None \<Rightarrow> None | Some m \<Rightarrow> metadata_text m)
                  (str ''No content available''))"
    unfolding nth by (simp add: transformResult_def)
  have ne: "content (documents r ! i) \<noteq> []"
    unfolding c by (intro or_else_nonempty nca)
  from f j' len t fa ne c show ?thesis by blast
qed

theorem orchestrator_document_fields_witness:
  "title (example_documents ! 1) = str ''FIFA Document '' @ decimal 2 \<and>
   fetched_at (example_documents ! 1) = str ''2026-06-11T18:00:00.00'' @ decimal 1 @ str ''Z'' \<and>
   content (example_documents ! 1) \<noteq> [] \<and>
   content (example_documents ! 1) = str ''Ticket prices in USD''"
proof -
  let ?env = "example_env (Returns []) (Returns \<lparr>ok = True, json = Returns (JsonObject (Some example_results))\<rparr>)
                :: (message list, message list streamParams) env"
  have i: "1 < length (documents \<lparr>documents = example_documents, has_results = True, query_id = None\<rparr>)"
    by (simp add: example_documents_def)
  from orchestrator_document_fields
    [OF example_query [where e = "Returns []" and emb = "[]" and q = "str ''Tickets?''"] i]
  obtain resp rs where
    f: "fetch ?env (str ''http://localhost:8000'' @ str ''/search'')
             \<lparr>query = str ''Tickets?'', limit = 5, score_threshold = 3 / 10\<rparr> = Returns resp"
    and j: "json resp = Returns (JsonObject (Some rs))"
    and t: "title (example_documents ! 1) = str ''FIFA Document '' @ decimal (1 + 1)"
    and fa: "fetched_at (example_documents ! 1) = now_iso ?env 1"
    and ne: "content (example_documents ! 1) \<noteq> []"
    and c: "content (example_documents ! 1) =
             or_else (result_text (rs ! 1))
               (or_else (case result_metadata (rs ! 1) of None \<Rightarrow> None | Some m \<Rightarrow> metadata_text m)
                  (str ''No content available''))"
    by auto
  from f j have rs: "rs = example_results"
    by (auto simp: example_env_def)
  from t have t': "title (example_documents ! 1) = str ''FIFA Document '' @ decimal 2"
    by (simp only: one_add_one)
  from fa have fa': "fetched_at (example_documents ! 1) = str ''2026-06-11T18:00:00.00'' @ decimal 1 @ str ''Z''"
    by (simp add: example_env_def)
  have "or_else (result_text (example_results ! 1))
               (or_else (case result_metadata (example_results ! 1) of None \<Rightarrow> None | Some m \<Rightarrow> metadata_text m)
                  (str ''No content available'')) = str ''Ticket prices in USD''"
    by (simp add: example_results_def str_def)
  with c rs have c': "content (example_documents ! 1) = str ''Ticket prices in USD''"
    by simp
  from t' fa' ne c' show ?thesis by blast
qed

section \<open>Claims about the chat endpoint\<close>

text \<open>
  Claim C8. When \<open>req.json()\<close> throws, or the parsed body is \<open>null\<close> or has no
  \<open>messages\<close> field, \<open>POST\<close> answers with status 500 and the plain-text body
  "Internal Server Error", and the trace of external calls is empty: no embedding call,
  no search call and no model call was made.
\<close>

theorem malformed_request_500:
  assumes "req = Throws \<or> req = Returns NullBody \<or> req = Returns (ObjectBody None)"
  shows "POST env req = ([], PlainResponse 500 (str ''Internal Server Error''))"
  using assms by (auto simp: POST_def internalServerError_def)

theorem malformed_request_500_witness:
  "POST (example_env (Returns []) Throws) Throws = ([], PlainResponse 500 (str ''Internal Server Error'')) \<and>
   POST (example_env (Returns []) Throws) (Returns (ObjectBody None))
     = ([], PlainResponse 500 (str ''Internal Server Error''))"
  using malformed_request_500 [of Throws "example_env (Returns []) Throws"]
    malformed_request_500 [of "Returns (ObjectBody None)" "example_env (Returns []) Throws"]
  by simp

text \<open>
  Claim C6. A request with no last message, a last message without \<open>parts\<close>, or one
  with no part of type \<open>text\<close> has an empty query. Whenever the trimmed query is empty,
  every external call of the handler is a model call with model \<open>gpt-5\<close> and no system
  prompt: there is no embedding call and no search call. When the completion client
  answers, the trace is that single call and the response is its stream.
\<close>

theorem empty_query_skips_retrieval:
  "((msgs = [] \<or> parts (last msgs) = None \<or>
      (\<exists>ps. parts (last msgs) = Some ps \<and> (\<forall>p \<in> set ps. part_type p \<noteq> str ''text'')))
     \<longrightarrow> trim (extractQuery msgs) = []) \<and>
   (trim (extractQuery msgs) = [] \<longrightarrow>
      (\<forall>ev \<in> set (fst (POST env (Returns (ObjectBody (Some msgs))))).
          \<exists>p. ev = ModelCall p \<and> model p = str ''gpt-5'' \<and> system p = None) \<and>
      (\<forall>mm s. convertToModelMessages env msgs = Returns mm \<and>
              streamText env \<lparr>model = str ''gpt-5'', system = None, messages = mm\<rparr> = Returns s \<longrightarrow>
              POST env (Returns (ObjectBody (Some msgs))) =
                ([ModelCall \<lparr>model = str ''gpt-5'', system = None, messages = mm\<rparr>], UIMessageStream s)))"
proof (intro conjI impI ballI allI)
  assume "msgs = [] \<or> parts (last msgs) = None \<or>
      (\<exists>ps. parts (last msgs) = Some ps \<and> (\<forall>p \<in> set ps. part_type p \<noteq> str ''text''))"
  then show "trim (extractQuery msgs) = []"
    by (simp add: extractQuery_no_text)
next
  fix ev
  assume "trim (extractQuery msgs) = []"
    and "ev \<in> set (fst (POST env (Returns (ObjectBody (Some msgs)))))"
  then have "ev \<in> set (fst (fallbackChat env [] msgs))"
    by (simp add: POST_empty_query)
  then show "\<exists>p. ev = ModelCall p \<and> model p = str ''gpt-5'' \<and> system p = None"
    using fallbackChat_events by fastforce
next
  fix mm s
  assume "trim (extractQuery msgs) = []"
    and "convertToModelMessages env msgs = Returns mm \<and>
         streamText env \<lparr>model = str ''gpt-5'', system = None, messages = mm\<rparr> = Returns s"
  then show "POST env (Returns (ObjectBody (Some msgs))) =
                ([ModelCall \<lparr>model = str ''gpt-5'', system = None, messages = mm\<rparr>], UIMessageStream s)"
    by (simp add: POST_empty_query fallbackChat_ok)
qed

theorem empty_query_skips_retrieval_witness:
  "POST (example_env (Returns []) Throws)
     (Returns (ObjectBody (Some
        [\<lparr>role = str ''user'', parts = Some [\<lparr>part_type = str ''file'', part_text = None\<rparr>]\<rparr>]))) =
     ([ModelCall \<lparr>model = str ''gpt-5'', system = None,
         messages = [\<lparr>role = str ''user'', parts = Some [\<lparr>part_type = str ''file'', part_text = None\<rparr>]\<rparr>]\<rparr>],
      UIMessageStream \<lparr>model = str ''gpt-5'', system = None,
         messages = [\<lparr>role = str ''user'', parts = Some [\<lparr>part_type = str ''file'', part_text = None\<rparr>]\<rparr>]\<rparr>) \<and>
   POST (example_env (Returns []) Throws)
     (Returns (ObjectBody (Some (example_messages (str ''   ''))))) =
     ([ModelCall \<lparr>model = str ''gpt-5'', system = None, messages = example_messages (str ''   '')\<rparr>],
      UIMessageStream \<lparr>model = str ''gpt-5'', system = None, messages = example_messages (str ''   '')\<rparr>)"
proof -
  let ?env = "example_env (Returns []) Throws :: (message list, message list streamParams) env"
  let ?m1 = "[\<lparr>role = str ''user'', parts = Some [\<lparr>part_type = str ''file'', part_text = None\<rparr>]\<rparr>]"
  let ?m2 = "example_messages (str ''   '')"
  have p: "?m1 = [] \<or> parts (last ?m1) = None \<or>
      (\<exists>ps. parts (last ?m1) = Some ps \<and> (\<forall>p \<in> set ps. part_type p \<noteq> str ''text''))"
    by (simp add: str_def)
  with empty_query_skips_retrieval [of ?m1 ?env] have t1: "trim (extractQuery ?m1) = []"
    by blast
  have a: "POST ?env (Returns (ObjectBody (Some ?m1))) =
     ([ModelCall \<lparr>model = str ''gpt-5'', system = None, messages = ?m1\<rparr>],
      UIMessageStream \<lparr>model = str ''gpt-5'', system = None, messages = ?m1\<rparr>)"
    using empty_query_skips_retrieval [of ?m1 ?env] t1 by simp
  have t2: "trim (extractQuery ?m2) = []"
    by (simp add: trim_empty_iff str_def isWhiteSpace_def)
  have b: "POST ?env (Returns (ObjectBody (Some ?m2))) =
     ([ModelCall \<lparr>model = str ''gpt-5'', system = None, messages = ?m2\<rparr>],
      UIMessageStream \<lparr>model = str ''gpt-5'', system = None, messages = ?m2\<rparr>)"
    using empty_query_skips_retrieval [of ?m2 ?env] t2 by simp
  from a b show ?thesis by blast
qed

text \<open>
  Claim C3. Take a request with a non-empty trimmed query whose embedding call returns,
  and let the search call be rejected or answer with a status that is not ok. Then
  \<open>queryRAGSystem\<close> returns \<open>null\<close>, \<open>buildSystemPrompt\<close> gives the no-answer
  prompt, and the handler behaves exactly as it does when the search service answers
  with an empty result list. When the completion client answers, the response is the
  stream of the model call made with the no-answer prompt; a 500 can only come from the
  completion client itself throwing.
\<close>

theorem fetcher_failure_no_answer:
  assumes "trim (extractQuery msgs) \<noteq> []"
    and "embed env (str ''openai/text-embedding-3-small'') (extractQuery msgs) = Returns e"
    and "fetch env (str ''http://localhost:8000'' @ str ''/search'')
           \<lparr>query = extractQuery msgs, limit = 5, score_threshold = 3 / 10\<rparr> = Throws \<or>
         (\<exists>resp. fetch env (str ''http://localhost:8000'' @ str ''/search'')
           \<lparr>query = extractQuery msgs, limit = 5, score_threshold = 3 / 10\<rparr> = Returns resp \<and> \<not> ok resp)"
  shows "snd (queryRAGSystem env e (extractQuery msgs)) = None \<and>
         buildSystemPrompt (snd (queryRAGSystem env e (extractQuery msgs))) (extractQuery msgs)
           = buildNoAnswerPrompt \<and>
         POST env (Returns (ObjectBody (Some msgs))) =
           POST (env\<lparr>fetch := \<lambda>u b. Returns \<lparr>ok = True, json = Returns (JsonObject (Some []))\<rparr>\<rparr>)
             (Returns (ObjectBody (Some msgs))) \<and>
         (\<forall>mm s. convertToModelMessages env msgs = Returns mm \<and>
                 streamText env \<lparr>model = str ''openai/gpt-4o-mini'', system = Some buildNoAnswerPrompt,
                                 messages = mm\<rparr> = Returns s \<longrightarrow>
                 POST env (Returns (ObjectBody (Some msgs))) =
                   ([EmbedCall (str ''openai/text-embedding-3-small'') (extractQuery msgs),
                     FetchCall (str ''http://localhost:8000'' @ str ''/search'')
                       \<lparr>query = extractQuery msgs, limit = 5, score_threshold = 3 / 10\<rparr>,
                     ModelCall \<lparr>model = str ''openai/gpt-4o-mini'', system = Some buildNoAnswerPrompt,
                                messages = mm\<rparr>],
                    UIMessageStream s)) \<and>
         (snd (POST env (Returns (ObjectBody (Some msgs)))) = PlainResponse 500 (str ''Internal Server Error'')
            \<longrightarrow> convertToModelMessages env msgs = Throws \<or> (\<exists>p. streamText env p = Throws))"
proof -
  let ?q = "extractQuery msgs"
  let ?env' = "env\<lparr>fetch := \<lambda>u b. Returns \<lparr>ok = True, json = Returns (JsonObject (Some []))\<rparr>\<rparr>"
  from assms(3) have "fetch_failed (fetch env (str ''http://localhost:8000'' @ str ''/search'')
           \<lparr>query = ?q, limit = 5, score_threshold = 3 / 10\<rparr>)"
    by (auto simp: fetch_failed_def)
  then have none: "snd (queryRAGSystem env e ?q) = None"
    by (rule queryRAGSystem_failed)
  then have prompt: "buildSystemPrompt (snd (queryRAGSystem env e ?q)) ?q = buildNoAnswerPrompt"
    by (simp add: buildSystemPrompt_None)
  have prompt': "buildSystemPrompt (snd (queryRAGSystem ?env' e ?q)) ?q = buildNoAnswerPrompt"
    by (simp add: queryRAGSystem_def buildSystemPrompt_def Let_def)
  have same: "POST env (Returns (ObjectBody (Some msgs))) = POST ?env' (Returns (ObjectBody (Some msgs)))"
  proof -
    have "embed ?env' (str ''openai/text-embedding-3-small'') ?q = Returns e"
      using assms(2) by simp
    from POST_retrieval [OF assms(1) this] POST_retrieval [OF assms(1) assms(2)]
    show ?thesis
      by (simp add: prompt prompt' queryRAGSystem_fst Let_def split: outcome.splits)
  qed
  have ok: "POST env (Returns (ObjectBody (Some msgs))) =
                   ([EmbedCall (str ''openai/text-embedding-3-small'') ?q,
                     FetchCall (str ''http://localhost:8000'' @ str ''/search'')
                       \<lparr>query = ?q, limit = 5, score_threshold = 3 / 10\<rparr>,
                     ModelCall \<lparr>model = str ''openai/gpt-4o-mini'', system = Some buildNoAnswerPrompt,
                                messages = mm\<rparr>],
                    UIMessageStream s)"
    if "convertToModelMessages env msgs = Returns mm \<and>
        streamText env \<lparr>model = str ''openai/gpt-4o-mini'', system = Some buildNoAnswerPrompt,
                        messages = mm\<rparr> = Returns s" for mm s
    using that by (simp add: POST_retrieval [OF assms(1) assms(2)] prompt queryRAGSystem_fst)
  have err: "convertToModelMessages env msgs = Throws \<or> (\<exists>p. streamText env p = Throws)"
    if "snd (POST env (Returns (ObjectBody (Some msgs)))) = PlainResponse 500 (str ''Internal Server Error'')"
    using POST_retrieval_500 [OF assms(1) assms(2) that] .
  from none prompt same ok err show ?thesis by blast
qed

theorem fetcher_failure_no_answer_witness:
  "snd (queryRAGSystem (example_env (Returns []) (Returns \<lparr>ok = False, json = Throws\<rparr>)) []
          (str ''Who plays today?'')) = None \<and>
   POST (example_env (Returns []) (Returns \<lparr>ok = False, json = Throws\<rparr>))
     (Returns (ObjectBody (Some (example_messages (str ''Who plays today?''))))) =
     ([EmbedCall (str ''openai/text-embedding-3-small'') (str ''Who plays today?''),
       FetchCall (str ''http://localhost:8000'' @ str ''/search'')
         \<lparr>query = str ''Who plays today?'', limit = 5, score_threshold = 3 / 10\<rparr>,
       ModelCall \<lparr>model = str ''openai/gpt-4o-mini'', system = Some buildNoAnswerPrompt,
                  messages = example_messages (str ''Who plays today?'')\<rparr>],
      UIMessageStream \<lparr>model = str ''openai/gpt-4o-mini'', system = Some buildNoAnswerPrompt,
                       messages = example_messages (str ''Who plays today?'')\<rparr>)"
proof -
  let ?msgs = "example_messages (str ''Who plays today?'')"
  let ?env = "example_env (Returns []) (Returns \<lparr>ok = False, json = Throws\<rparr>)
                 :: (message list, message list streamParams) env"
  have t: "trim (extractQuery ?msgs) \<noteq> []" by (simp add: trim_example)
  have e: "embed ?env (str ''openai/text-embedding-3-small'') (extractQuery ?msgs) = Returns []" by simp
  have f: "fetch ?env (str ''http://localhost:8000'' @ str ''/search'')
           \<lparr>query = extractQuery ?msgs, limit = 5, score_threshold = 3 / 10\<rparr> = Throws \<or>
         (\<exists>resp. fetch ?env (str ''http://localhost:8000'' @ str ''/search'')
           \<lparr>query = extractQuery ?msgs, limit = 5, score_threshold = 3 / 10\<rparr> = Returns resp \<and> \<not> ok resp)"
    by simp
  note th = fetcher_failure_no_answer [OF t e f]
  from th have "snd (queryRAGSystem ?env [] (extractQuery ?msgs)) = None"
    by (rule conjunct1)
  then have n: "snd (queryRAGSystem ?env [] (str ''Who plays today?'')) = None"
    by simp
  from th have "\<forall>mm s. convertToModelMessages ?env ?msgs = Returns mm \<and>
                 streamText ?env \<lparr>model = str ''openai/gpt-4o-mini'', system = Some buildNoAnswerPrompt,
                                 messages = mm\<rparr> = Returns s \<longrightarrow>
                 POST ?env (Returns (ObjectBody (Some ?msgs))) =
                   ([EmbedCall (str ''openai/text-embedding-3-small'') (extractQuery ?msgs),
                     FetchCall (str ''http://localhost:8000'' @ str ''/search'')
                       \<lparr>query = extractQuery ?msgs, limit = 5, score_threshold = 3 / 10\<rparr>,
                     ModelCall \<lparr>model = str ''openai/gpt-4o-mini'', system = Some buildNoAnswerPrompt,
                                messages = mm\<rparr>],
                    UIMessageStream s)"
    by blast
  then have p: "POST ?env (Returns (ObjectBody (Some ?msgs))) =
     ([EmbedCall (str ''openai/text-embedding-3-small'') (str ''Who plays today?''),
       FetchCall (str ''http://localhost:8000'' @ str ''/search'')
         \<lparr>query = str ''Who plays today?'', limit = 5, score_threshold = 3 / 10\<rparr>,
       ModelCall \<lparr>model = str ''openai/gpt-4o-mini'', system = Some buildNoAnswerPrompt,
                  messages = ?msgs\<rparr>],
      UIMessageStream \<lparr>model = str ''openai/gpt-4o-mini'', system = Some buildNoAnswerPrompt,
                       messages = ?msgs\<rparr>)"
    by simp
  from n p show ?thesis by blast
qed

text \<open>
  Claim C2, as amended. Take a request with a non-empty trimmed query. If the embedding
  call throws, the exception is caught: no search call is made, every model call has no
  system prompt, and when the completion client answers the response is the stream of the
  \<open>gpt-5\<close> call without system prompt. If the embedding call returns and the search call
  fails (rejected, status not ok, body not JSON, body \<open>null\<close>), the failure is caught and
  becomes a \<open>null\<close> retrieval result, and the model call is made with the no-answer
  prompt as its system prompt, not without one. In both cases a 500 can only come from the
  completion client itself throwing.
\<close>

theorem retrieval_failure_degrades:
  assumes "trim (extractQuery msgs) \<noteq> []"
  shows "(embed env (str ''openai/text-embedding-3-small'') (extractQuery msgs) = Throws \<longrightarrow>
            (\<forall>ev \<in> set (fst (POST env (Returns (ObjectBody (Some msgs))))).
                ev = EmbedCall (str ''openai/text-embedding-3-small'') (extractQuery msgs) \<or>
                (\<exists>p. ev = ModelCall p \<and> model p = str ''gpt-5'' \<and> system p = None)) \<and>
            (\<forall>mm s. convertToModelMessages env msgs = Returns mm \<and>
                    streamText env \<lparr>model = str ''gpt-5'', system = None, messages = mm\<rparr> = Returns s \<longrightarrow>
                    POST env (Returns (ObjectBody (Some msgs))) =
                      ([EmbedCall (str ''openai/text-embedding-3-small'') (extractQuery msgs),
                        ModelCall \<lparr>model = str ''gpt-5'', system = None, messages = mm\<rparr>],
                       UIMessageStream s))) \<and>
         (\<forall>e. embed env (str ''openai/text-embedding-3-small'') (extractQuery msgs) = Returns e \<and>
              fetch_failed (fetch env (str ''http://localhost:8000'' @ str ''/search'')
                \<lparr>query = extractQuery msgs, limit = 5, score_threshold = 3 / 10\<rparr>) \<longrightarrow>
            snd (queryRAGSystem env e (extractQuery msgs)) = None \<and>
            (\<forall>mm s. convertToModelMessages env msgs = Returns mm \<and>
                    streamText env \<lparr>model = str ''openai/gpt-4o-mini'', system = Some buildNoAnswerPrompt,
                                    messages = mm\<rparr> = Returns s \<longrightarrow>
                    POST env (Returns (ObjectBody (Some msgs))) =
                      ([EmbedCall (str ''openai/text-embedding-3-small'') (extractQuery msgs),
                        FetchCall (str ''http://localhost:8000'' @ str ''/search'')
                          \<lparr>query = extractQuery msgs, limit = 5, score_threshold = 3 / 10\<rparr>,
                        ModelCall \<lparr>model = str ''openai/gpt-4o-mini'', system = Some buildNoAnswerPrompt,
                                   messages = mm\<rparr>],
                       UIMessageStream s))) \<and>
         ((embed env (str ''openai/text-embedding-3-small'') (extractQuery msgs) = Throws \<or>
           fetch_failed (fetch env (str ''http://localhost:8000'' @ str ''/search'')
                \<lparr>query = extractQuery msgs, limit = 5, score_threshold = 3 / 10\<rparr>)) \<and>
          snd (POST env (Returns (ObjectBody (Some msgs)))) = PlainResponse 500 (str ''Internal Server Error'')
            \<longrightarrow> convertToModelMessages env msgs = Throws \<or> (\<exists>p. streamText env p = Throws))"
proof (intro conjI impI allI ballI)
  fix ev
  assume "embed env (str ''openai/text-embedding-3-small'') (extractQuery msgs) = Throws"
    and "ev \<in> set (fst (POST env (Returns (ObjectBody (Some msgs)))))"
  then have "ev \<in> set (fst (fallbackChat env
      [EmbedCall (str ''openai/text-embedding-3-small'') (extractQuery msgs)] msgs))"
    using assms by (simp add: POST_embed_throws)
  from fallbackChat_events [OF this]
  show "ev = EmbedCall (str ''openai/text-embedding-3-small'') (extractQuery msgs) \<or>
                (\<exists>p. ev = ModelCall p \<and> model p = str ''gpt-5'' \<and> system p = None)"
    by simp
next
  fix mm s
  assume "embed env (str ''openai/text-embedding-3-small'') (extractQuery msgs) = Throws"
    and "convertToModelMessages env msgs = Returns mm \<and>
         streamText env \<lparr>model = str ''gpt-5'', system = None, messages = mm\<rparr> = Returns s"
  then show "POST env (Returns (ObjectBody (Some msgs))) =
                      ([EmbedCall (str ''openai/text-embedding-3-small'') (extractQuery msgs),
                        ModelCall \<lparr>model = str ''gpt-5'', system = None, messages = mm\<rparr>],
                       UIMessageStream s)"
    using assms by (simp add: POST_embed_throws fallbackChat_ok)
next
  fix e
  assume "embed env (str ''openai/text-embedding-3-small'') (extractQuery msgs) = Returns e \<and>
              fetch_failed (fetch env (str ''http://localhost:8000'' @ str ''/search'')
                \<lparr>query = extractQuery msgs, limit = 5, score_threshold = 3 / 10\<rparr>)"
  then show "snd (queryRAGSystem env e (extractQuery msgs)) = None"
    by (simp add: queryRAGSystem_failed)
next
  fix e mm s
  assume a: "embed env (str ''openai/text-embedding-3-small'') (extractQuery msgs) = Returns e \<and>
              fetch_failed (fetch env (str ''http://localhost:8000'' @ str ''/search'')
                \<lparr>query = extractQuery msgs, limit = 5, score_threshold = 3 / 10\<rparr>)"
    and b: "convertToModelMessages env msgs = Returns mm \<and>
            streamText env \<lparr>model = str ''openai/gpt-4o-mini'', system = Some buildNoAnswerPrompt,
                            messages = mm\<rparr> = Returns s"
  from a have none: "snd (queryRAGSystem env e (extractQuery msgs)) = None"
    by (simp add: queryRAGSystem_failed)
  from a have emb: "embed env (str ''openai/text-embedding-3-small'') (extractQuery msgs) = Returns e"
    by simp
  from b show "POST env (Returns (ObjectBody (Some msgs))) =
                      ([EmbedCall (str ''openai/text-embedding-3-small'') (extractQuery msgs),
                        FetchCall (str ''http://localhost:8000'' @ str ''/search'')
                          \<lparr>query = extractQuery msgs, limit = 5, score_threshold = 3 / 10\<rparr>,
                        ModelCall \<lparr>model = str ''openai/gpt-4o-mini'', system = Some buildNoAnswerPrompt,
                                   messages = mm\<rparr>],
                       UIMessageStream s)"
    by (simp add: POST_retrieval [OF assms emb] none buildSystemPrompt_None queryRAGSystem_fst)
next
  assume a: "(embed env (str ''openai/text-embedding-3-small'') (extractQuery msgs) = Throws \<or>
           fetch_failed (fetch env (str ''http://localhost:8000'' @ str ''/search'')
                \<lparr>query = extractQuery msgs, limit = 5, score_threshold = 3 / 10\<rparr>)) \<and>
          snd (POST env (Returns (ObjectBody (Some msgs)))) = PlainResponse 500 (str ''Internal Server Error'')"
  show "convertToModelMessages env msgs = Throws \<or> (\<exists>p. streamText env p = Throws)"
  proof (cases "embed env (str ''openai/text-embedding-3-small'') (extractQuery msgs)")
    case Throws
    with a assms have "snd (fallbackChat env
      [EmbedCall (str ''openai/text-embedding-3-small'') (extractQuery msgs)] msgs)
        = PlainResponse 500 (str ''Internal Server Error'')"
      by (simp add: POST_embed_throws)
    then show ?thesis by (rule fallbackChat_500)
  next
    case (Returns e)
    from a have "snd (POST env (Returns (ObjectBody (Some msgs)))) = PlainResponse 500 (str ''Internal Server Error'')"
      by simp
    from POST_retrieval_500 [OF assms Returns this] show ?thesis .
  qed
qed

theorem retrieval_failure_degrades_witness:
  "POST (example_env Throws Throws) (Returns (ObjectBody (Some (example_messages (str ''Who plays today?''))))) =
     ([EmbedCall (str ''openai/text-embedding-3-small'') (str ''Who plays today?''),
       ModelCall \<lparr>model = str ''gpt-5'', system = None,
                  messages = example_messages (str ''Who plays today?'')\<rparr>],
      UIMessageStream \<lparr>model = str ''gpt-5'', system = None,
                       messages = example_messages (str ''Who plays today?'')\<rparr>) \<and>
   POST (example_env (Returns []) (Returns \<lparr>ok = True, json = Throws\<rparr>))
     (Returns (ObjectBody (Some (example_messages (str ''Who plays today?''))))) =
     ([EmbedCall (str ''openai/text-embedding-3-small'') (str ''Who plays today?''),
       FetchCall (str ''http://localhost:8000'' @ str ''/search'')
         \<lparr>query = str ''Who plays today?'', limit = 5, score_threshold = 3 / 10\<rparr>,
       ModelCall \<lparr>model = str ''openai/gpt-4o-mini'', system = Some buildNoAnswerPrompt,
                  messages = example_messages (str ''Who plays today?'')\<rparr>],
      UIMessageStream \<lparr>model = str ''openai/gpt-4o-mini'', system = Some buildNoAnswerPrompt,
                       messages = example_messages (str ''Who plays today?'')\<rparr>)"
proof -
  let ?msgs = "example_messages (str ''Who plays today?'')"
  let ?env1 = "example_env Throws Throws :: (message list, message list streamParams) env"
  let ?env2 = "example_env (Returns []) (Returns \<lparr>ok = True, json = Throws\<rparr>)
                 :: (message list, message list streamParams) env"
  have t: "trim (extractQuery ?msgs) \<noteq> []" by (simp add: trim_example)
  have a: "POST ?env1 (Returns (ObjectBody (Some ?msgs))) =
     ([EmbedCall (str ''openai/text-embedding-3-small'') (str ''Who plays today?''),
       ModelCall \<lparr>model = str ''gpt-5'', system = None, messages = ?msgs\<rparr>],
      UIMessageStream \<lparr>model = str ''gpt-5'', system = None, messages = ?msgs\<rparr>)"
    using retrieval_failure_degrades [OF t, of ?env1] by simp
  have f: "fetch_failed (Returns \<lparr>ok = True, json = Throws\<rparr>)"
    by (simp add: fetch_failed_def)
  have b: "POST ?env2 (Returns (ObjectBody (Some ?msgs))) =
     ([EmbedCall (str ''openai/text-embedding-3-small'') (str ''Who plays today?''),
       FetchCall (str ''http://localhost:8000'' @ str ''/search'')
         \<lparr>query = str ''Who plays today?'', limit = 5, score_threshold = 3 / 10\<rparr>,
       ModelCall \<lparr>model = str ''openai/gpt-4o-mini'', system = Some buildNoAnswerPrompt,
                  messages = ?msgs\<rparr>],
      UIMessageStream \<lparr>model = str ''openai/gpt-4o-mini'', system = Some buildNoAnswerPrompt,
                       messages = ?msgs\<rparr>)"
    using retrieval_failure_degrades [OF t, of ?env2] f by simp
  from a b show ?thesis by blast
qed

text \<open>
  As the claim is worded (a completion call with no system prompt after any retrieval
  failure), it fails when the search call is rejected: the query below is not empty, the
  embedding call returns, \<open>fetch\<close> throws, and the one model call carries the
  no-answer prompt as its system prompt.
\<close>

theorem retrieval_failure_degrades_counterexample:
  "trim (extractQuery (example_messages (str ''Who plays today?''))) \<noteq> [] \<and>
   fetch (example_env (Returns []) Throws) (str ''http://localhost:8000'' @ str ''/search'')
     \<lparr>query = str ''Who plays today?'', limit = 5, score_threshold = 3 / 10\<rparr> = Throws \<and>
   POST (example_env (Returns []) Throws)
     (Returns (ObjectBody (Some (example_messages (str ''Who plays today?''))))) =
     ([EmbedCall (str ''openai/text-embedding-3-small'') (str ''Who plays today?''),
       FetchCall (str ''http://localhost:8000'' @ str ''/search'')
         \<lparr>query = str ''Who plays today?'', limit = 5, score_threshold = 3 / 10\<rparr>,
       ModelCall \<lparr>model = str ''openai/gpt-4o-mini'', system = Some buildNoAnswerPrompt,
                  messages = example_messages (str ''Who plays today?'')\<rparr>],
      UIMessageStream \<lparr>model = str ''openai/gpt-4o-mini'', system = Some buildNoAnswerPrompt,
                       messages = example_messages (str ''Who plays today?'')\<rparr>) \<and>
   system \<lparr>model = str ''openai/gpt-4o-mini'', system = Some buildNoAnswerPrompt,
           messages = example_messages (str ''Who plays today?'')\<rparr> \<noteq> None"
proof -
  let ?env = "example_env (Returns []) Throws :: (message list, message list streamParams) env"
  let ?msgs = "example_messages (str ''Who plays today?'')"
  have t: "trim (extractQuery ?msgs) \<noteq> []" by (simp add: trim_example)
  have e: "embed ?env (str ''openai/text-embedding-3-small'') (extractQuery ?msgs) = Returns []" by simp
  have q: "queryRAGSystem ?env [] (str ''Who plays today?'') =
     ([FetchCall (str ''http://localhost:8000'' @ str ''/search'')
         \<lparr>query = str ''Who plays today?'', limit = 5, score_threshold = 3 / 10\<rparr>], None)"
    by (simp add: queryRAGSystem_def Let_def)
  have "POST ?env (Returns (ObjectBody (Some ?msgs))) =
     ([EmbedCall (str ''openai/text-embedding-3-small'') (str ''Who plays today?''),
       FetchCall (str ''http://localhost:8000'' @ str ''/search'')
         \<lparr>query = str ''Who plays today?'', limit = 5, score_threshold = 3 / 10\<rparr>,
       ModelCall \<lparr>model = str ''openai/gpt-4o-mini'', system = Some buildNoAnswerPrompt,
                  messages = ?msgs\<rparr>],
      UIMessageStream \<lparr>model = str ''openai/gpt-4o-mini'', system = Some buildNoAnswerPrompt,
                       messages = ?msgs\<rparr>)"
    by (simp add: POST_retrieval [OF t e] q buildSystemPrompt_None)
  with t show ?thesis by simp
qed

end
